theory Spec2Isabelle
  imports Main
begin

section \<open>JavaScript values\<close>

text \<open>
  Everything the front end handles arrives through \<^verbatim>\<open>response.json()\<close>, so a value is a
  JSON value, plus \<^verbatim>\<open>undefined\<close> for a property that is absent. Strings are sequences of
  code units, here the 8-bit ones. The program does two things with a number: it tests it
  for zero and it converts it to a string. So a number is carried as the text that
  \<^verbatim>\<open>Number::toString\<close> gives for it: \<open>JNum ''82.5''\<close> is \<^verbatim>\<open>82.5\<close>, \<open>JNum ''0''\<close> is zero (of
  either sign), and \<open>JNum ''9223372036854776000''\<close> is \<open>2^63\<close>. The list of \<open>JObj\<close> holds the
  own properties in creation order, each key once.
\<close>

datatype jsval =
    JUndefined
  | JNull
  | JBool bool
  | JNum string
  | JStr string
  | JArr "jsval list"
  | JObj "(string \<times> jsval) list"

text \<open>
  Thrown values, each with its \<^verbatim>\<open>message\<close>. The message of a \<^verbatim>\<open>TypeError\<close> is worded by the
  engine; the texts below are those of V8 (Node.js, Chrome) on the source as it is written.
\<close>

datatype exn = Error string | TypeError string | SyntaxError string

fun message :: "exn \<Rightarrow> string" where
  "message (Error m) = m"
| "message (TypeError m) = m"
| "message (SyntaxError m) = m"

definition dq :: char where
  "dq = CHR 0x22"

definition bslash :: char where
  "bslash = CHR 0x5C"

definition sq :: char where
  "sq = CHR 0x27"

text \<open>\<^verbatim>\<open>ToBoolean\<close>, the test behind \<^verbatim>\<open>||\<close>, \<^verbatim>\<open>? :\<close> and \<^verbatim>\<open>if\<close>.\<close>

fun truthy :: "jsval \<Rightarrow> bool" where
  "truthy JUndefined = False"
| "truthy JNull = False"
| "truthy (JBool b) = b"
| "truthy (JNum t) = (t \<noteq> ''0'')"
| "truthy (JStr s) = (s \<noteq> [])"
| "truthy (JArr vs) = True"
| "truthy (JObj kvs) = True"

text \<open>\<^verbatim>\<open>a || b\<close> for a right operand without effects.\<close>

definition js_or :: "jsval \<Rightarrow> jsval \<Rightarrow> jsval" where
  "js_or a b = (if truthy a then a else b)"

text \<open>\<^verbatim>\<open>Array.prototype.join\<close> on elements that are strings already.\<close>

fun js_join :: "string \<Rightarrow> string list \<Rightarrow> string" where
  "js_join sep [] = []"
| "js_join sep [x] = x"
| "js_join sep (x # y # ys) = x @ sep @ js_join sep (y # ys)"

text \<open>
  The decimal digits of an integer, and the number \<open>n\<close> for an integer \<open>n\<close> of magnitude up to
  \<open>2^53\<close>, where \<^verbatim>\<open>Number::toString\<close> gives exactly these digits.
\<close>

function digits :: "int \<Rightarrow> string" where
  "digits n =
     (if n < 10 then [''0123456789'' ! nat n]
      else digits (n div 10) @ [''0123456789'' ! nat (n mod 10)])"
  by pat_completeness auto
termination
  by (relation "measure nat") auto

declare digits.simps [simp del]

definition decimal :: "int \<Rightarrow> string" where
  "decimal n = (if n < 0 then CHR ''-'' # digits (- n) else digits n)"

definition js_integer :: "int \<Rightarrow> jsval" where
  "js_integer n = JNum (decimal n)"

text \<open>
  \<^verbatim>\<open>String(v)\<close>, the conversion inside a template literal and inside \<^verbatim>\<open>new Error(v)\<close>
  (\<^verbatim>\<open>ToString\<close>). An array converts as \<^verbatim>\<open>join(',')\<close> does: its elements in turn, \<^verbatim>\<open>null\<close> and
  \<^verbatim>\<open>undefined\<close> as the empty text. A plain object is \<^verbatim>\<open>[object Object]\<close> through the
  inherited \<^verbatim>\<open>toString\<close>; but an object with an own property \<^verbatim>\<open>toString\<close>, which in a JSON
  value is never a function, has no primitive value and the conversion throws.
\<close>

fun to_string :: "jsval \<Rightarrow> exn + string"
  and to_strings :: "jsval list \<Rightarrow> exn + string list" where
  "to_string JUndefined = Inr ''undefined''"
| "to_string JNull = Inr ''null''"
| "to_string (JBool b) = Inr (if b then ''true'' else ''false'')"
| "to_string (JNum t) = Inr t"
| "to_string (JStr s) = Inr s"
| "to_string (JArr vs) =
     (case to_strings vs of Inl e \<Rightarrow> Inl e | Inr ss \<Rightarrow> Inr (js_join '','' ss))"
| "to_string (JObj kvs) =
     (if ''toString'' \<in> set (map fst kvs)
      then Inl (TypeError ''Cannot convert object to primitive value'')
      else Inr ''[object Object]'')"
| "to_strings [] = Inr []"
| "to_strings (v # vs) =
     (case (if v = JUndefined \<or> v = JNull then Inr [] else to_string v) of
        Inl e \<Rightarrow> Inl e
      | Inr s \<Rightarrow> (case to_strings vs of Inl e \<Rightarrow> Inl e | Inr ss \<Rightarrow> Inr (s # ss)))"

text \<open>\<^verbatim>\<open>Array.prototype.join(sep)\<close> on an array of values.\<close>

definition array_join :: "string \<Rightarrow> jsval list \<Rightarrow> exn + string" where
  "array_join sep vs =
     (case to_strings vs of Inl e \<Rightarrow> Inl e | Inr ss \<Rightarrow> Inr (js_join sep ss))"

text \<open>The values whose conversion to a string does not throw.\<close>

fun printable :: "jsval \<Rightarrow> bool" where
  "printable (JArr vs) = list_all printable vs"
| "printable (JObj kvs) = (''toString'' \<notin> set (map fst kvs))"
| "printable v = True"

text \<open>
  \<^verbatim>\<open>Array.prototype.map\<close> with a callback that may throw: the elements in turn, the first
  throw ends it.
\<close>

fun map_throwing :: "('a \<Rightarrow> exn + 'b) \<Rightarrow> 'a list \<Rightarrow> exn + 'b list" where
  "map_throwing f [] = Inr []"
| "map_throwing f (x # xs) =
     (case f x of
        Inl e \<Rightarrow> Inl e
      | Inr y \<Rightarrow> (case map_throwing f xs of Inl e \<Rightarrow> Inl e | Inr ys \<Rightarrow> Inr (y # ys)))"

text \<open>
  Reading a property \<^verbatim>\<open>v.k\<close>. On \<^verbatim>\<open>undefined\<close> and \<^verbatim>\<open>null\<close> it throws. The names the
  program reads (\<^verbatim>\<open>evaluation_details\<close>, \<^verbatim>\<open>competency_scores\<close>, \<^verbatim>\<open>cited_evidence\<close>,
  \<^verbatim>\<open>pass_fail_status\<close>, \<^verbatim>\<open>justification\<close>, \<^verbatim>\<open>file_name\<close>, \<^verbatim>\<open>score\<close>, \<^verbatim>\<open>detail\<close>) are
  defined on no built-in prototype, so only an object's own properties can supply them.
\<close>

definition own_property :: "(string \<times> jsval) list \<Rightarrow> string \<Rightarrow> jsval" where
  "own_property kvs k = (case map_of kvs k of None \<Rightarrow> JUndefined | Some v \<Rightarrow> v)"

fun getp :: "jsval \<Rightarrow> string \<Rightarrow> exn + jsval" where
  "getp JUndefined k =
     Inl (TypeError (''Cannot read properties of undefined (reading '' @ [sq] @ k @ [sq] @ '')''))"
| "getp JNull k =
     Inl (TypeError (''Cannot read properties of null (reading '' @ [sq] @ k @ [sq] @ '')''))"
| "getp (JObj kvs) k = Inr (own_property kvs k)"
| "getp v k = Inr JUndefined"

text \<open>
  The call \<^verbatim>\<open>details.cited_evidence.join(sep)\<close> on the value \<open>v\<close> of \<^verbatim>\<open>cited_evidence\<close>: only
  an array has the method; on any other value \<^verbatim>\<open>v.join\<close> is \<^verbatim>\<open>undefined\<close> (or, for an own
  property of a JSON object, not a function) and the call throws.
\<close>

fun call_join :: "jsval \<Rightarrow> string \<Rightarrow> exn + string" where
  "call_join (JArr vs) sep = array_join sep vs"
| "call_join JUndefined sep =
     Inl (TypeError (''Cannot read properties of undefined (reading '' @ [sq] @ ''join'' @ [sq] @ '')''))"
| "call_join JNull sep =
     Inl (TypeError (''Cannot read properties of null (reading '' @ [sq] @ ''join'' @ [sq] @ '')''))"
| "call_join v sep = Inl (TypeError ''details.cited_evidence.join is not a function'')"

subsection \<open>Property order\<close>

text \<open>
  \<^verbatim>\<open>Object.entries\<close> lists the own properties of an object with the array indices first, in
  ascending numeric order, then the other keys in creation order. An array index is a key
  that is the decimal form of a number below \<open>2^32 - 1\<close>.
\<close>

fun digits_value :: "string \<Rightarrow> int" where
  "digits_value [] = 0"
| "digits_value (c # cs) = (of_char c - 48) * 10 ^ length cs + digits_value cs"

definition is_array_index :: "string \<Rightarrow> bool" where
  "is_array_index k =
     (list_all (\<lambda>c. c \<in> set ''0123456789'') k \<and> digits (digits_value k) = k
      \<and> digits_value k < 4294967295)"

definition own_entries :: "(string \<times> 'a) list \<Rightarrow> (string \<times> 'a) list" where
  "own_entries kvs =
     sort_key (\<lambda>kv. digits_value (fst kv)) (filter (\<lambda>kv. is_array_index (fst kv)) kvs)
     @ filter (\<lambda>kv. \<not> is_array_index (fst kv)) kvs"

fun Object_entries :: "jsval \<Rightarrow> exn + (string \<times> jsval) list" where
  "Object_entries JUndefined = Inl (TypeError ''Cannot convert undefined or null to object'')"
| "Object_entries JNull = Inl (TypeError ''Cannot convert undefined or null to object'')"
| "Object_entries (JBool b) = Inr []"
| "Object_entries (JNum n) = Inr []"
| "Object_entries (JStr s) =
     Inr (zip (map (\<lambda>i. digits (int i)) [0..<length s]) (map (\<lambda>c. JStr [c]) s))"
| "Object_entries (JArr vs) = Inr (zip (map (\<lambda>i. digits (int i)) [0..<length vs]) vs)"
| "Object_entries (JObj kvs) = Inr (own_entries kvs)"

section \<open>\<^verbatim>\<open>JSON.stringify\<close>\<close>

text \<open>
  \<^verbatim>\<open>QuoteJSONString\<close>: the text between double quotes, with the double quote, the backslash
  and the control characters below \<open>0x20\<close> escaped (the five short escapes, \<^verbatim>\<open>\u00xx\<close> in
  lower-case hexadecimal for the others).
\<close>

definition hex_digit :: "nat \<Rightarrow> char" where
  "hex_digit n = ''0123456789abcdef'' ! n"

definition escape_char :: "char \<Rightarrow> string" where
  "escape_char c =
     (if c = CHR 0x08 then [bslash, CHR ''b'']
      else if c = CHR 0x09 then [bslash, CHR ''t'']
      else if c = CHR 0x0A then [bslash, CHR ''n'']
      else if c = CHR 0x0C then [bslash, CHR ''f'']
      else if c = CHR 0x0D then [bslash, CHR ''r'']
      else if c = dq then [bslash, dq]
      else if c = bslash then [bslash, bslash]
      else if (of_char c :: nat) < 32 then
        [bslash, CHR ''u'', CHR ''0'', CHR ''0'',
         hex_digit (of_char c div 16), hex_digit (of_char c mod 16)]
      else [c])"

definition QuoteJSONString :: "string \<Rightarrow> string" where
  "QuoteJSONString s = dq # concat (map escape_char s) @ [dq]"

text \<open>
  \<^verbatim>\<open>JSON.stringify(v)\<close> with no replacer and no indentation; \<open>None\<close> is the result
  \<^verbatim>\<open>undefined\<close>. An \<^verbatim>\<open>undefined\<close> element of an array is written \<^verbatim>\<open>null\<close>, an
  \<^verbatim>\<open>undefined\<close> property is left out, and properties come in the order of \<open>own_entries\<close>.
\<close>

fun JSON_stringify :: "jsval \<Rightarrow> string option" where
  "JSON_stringify JUndefined = None"
| "JSON_stringify JNull = Some ''null''"
| "JSON_stringify (JBool b) = Some (if b then ''true'' else ''false'')"
| "JSON_stringify (JNum t) = Some t"
| "JSON_stringify (JStr s) = Some (QuoteJSONString s)"
| "JSON_stringify (JArr vs) =
     Some (''['' @ js_join '','' (map (\<lambda>v. case JSON_stringify v of None \<Rightarrow> ''null'' | Some t \<Rightarrow> t) vs)
           @ '']'')"
| "JSON_stringify (JObj kvs) =
     Some (''{'' @ js_join '',''
             (concat (map (\<lambda>kt. case snd kt of None \<Rightarrow> [] | Some t \<Rightarrow> [QuoteJSONString (fst kt) @ '':'' @ t])
                (own_entries (map (\<lambda>kv. (fst kv, JSON_stringify (snd kv))) kvs))))
           @ ''}'')"

text \<open>The result of \<^verbatim>\<open>JSON.stringify\<close> as a value again.\<close>

definition stringified :: "jsval \<Rightarrow> jsval" where
  "stringified v = (case JSON_stringify v of None \<Rightarrow> JUndefined | Some t \<Rightarrow> JStr t)"

section \<open>CSV export of the results table\<close>

text \<open>
  \<^verbatim>\<open>field => `"${String(field).replace(/"/g, '""')}"`\<close>: every double quote doubled, the
  whole between double quotes.
\<close>

definition replace_quotes :: "string \<Rightarrow> string" where
  "replace_quotes s = concat (map (\<lambda>c. if c = dq then [dq, dq] else [c]) s)"

definition quote_text :: "string \<Rightarrow> string" where
  "quote_text s = dq # replace_quotes s @ [dq]"

definition quote_field :: "jsval \<Rightarrow> exn + string" where
  "quote_field field =
     (case to_string field of Inl e \<Rightarrow> Inl e | Inr s \<Rightarrow> Inr (quote_text s))"

text \<open>
  The body of the \<^verbatim>\<open>results.map\<close> callback up to the array of six values:
  \<^verbatim>\<open>details\<close>, \<^verbatim>\<open>competencyScores\<close>, \<^verbatim>\<open>citedEvidence\<close>, then the array literal.
\<close>

definition pair_text :: "string \<times> jsval \<Rightarrow> exn + string" where
  "pair_text = (\<lambda>(key, value).
     case to_string value of Inl e \<Rightarrow> Inl e | Inr s \<Rightarrow> Inr (key @ '': '' @ s))"

definition competencyScores :: "jsval \<Rightarrow> exn + string" where
  "competencyScores details =
     (case getp details ''competency_scores'' of
        Inl e \<Rightarrow> Inl e
      | Inr cs \<Rightarrow>
          if truthy cs then
            (case Object_entries cs of
               Inl e \<Rightarrow> Inl e
             | Inr es \<Rightarrow>
                 (case map_throwing pair_text es of
                    Inl e \<Rightarrow> Inl e
                  | Inr pairs \<Rightarrow> Inr (js_join ''; '' pairs)))
          else Inr [])"

definition citedEvidence :: "jsval \<Rightarrow> exn + string" where
  "citedEvidence details =
     (case getp details ''cited_evidence'' of
        Inl e \<Rightarrow> Inl e
      | Inr ce \<Rightarrow> if truthy ce then call_join ce ''; '' else Inr [])"

definition row_values :: "jsval \<Rightarrow> exn + jsval list" where
  "row_values result =
     (case getp result ''evaluation_details'' of
        Inl e \<Rightarrow> Inl e
      | Inr ed \<Rightarrow>
          let details = js_or ed (JObj []) in
          (case competencyScores details of
             Inl e \<Rightarrow> Inl e
           | Inr cs \<Rightarrow>
               (case citedEvidence details of
                  Inl e \<Rightarrow> Inl e
                | Inr ce \<Rightarrow>
                    (case getp result ''file_name'' of
                       Inl e \<Rightarrow> Inl e
                     | Inr file_name \<Rightarrow>
                         (case getp result ''score'' of
                            Inl e \<Rightarrow> Inl e
                          | Inr score \<Rightarrow>
                              (case getp details ''pass_fail_status'' of
                                 Inl e \<Rightarrow> Inl e
                               | Inr pass_fail_status \<Rightarrow>
                                   (case getp details ''justification'' of
                                      Inl e \<Rightarrow> Inl e
                                    | Inr justification \<Rightarrow>
                                        Inr [file_name,
                                             score,
                                             js_or pass_fail_status (JStr ''N/A''),
                                             stringified (js_or justification (JStr [])),
                                             stringified (JStr ce),
                                             stringified (JStr cs)])))))))"

text \<open>The six quoted fields of a row, and the row: the fields joined by a comma.\<close>

definition row_fields :: "jsval \<Rightarrow> exn + string list" where
  "row_fields result =
     (case row_values result of Inl e \<Rightarrow> Inl e | Inr vs \<Rightarrow> map_throwing quote_field vs)"

definition csv_row :: "jsval \<Rightarrow> exn + string" where
  "csv_row result =
     (case row_fields result of Inl e \<Rightarrow> Inl e | Inr fs \<Rightarrow> Inr (js_join '','' fs))"

text \<open>\<^verbatim>\<open>results.map\<close>: the callback on every Result in turn.\<close>

definition map_rows :: "jsval list \<Rightarrow> exn + string list" where
  "map_rows results = map_throwing csv_row results"

definition headers :: "string list" where
  "headers = [''File Name'', ''Score'', ''Pass/Fail'', ''Justification'', ''Cited Evidence'',
              ''Competency Scores'']"

definition header_row :: string where
  "header_row = js_join '','' (map (\<lambda>h. dq # h @ [dq]) headers)"

definition csvContent :: "jsval list \<Rightarrow> exn + string" where
  "csvContent results =
     (case map_rows results of
        Inl e \<Rightarrow> Inl e
      | Inr rows \<Rightarrow> Inr (js_join ''\<newline>'' (header_row # rows)))"

text \<open>
  The component: with no results it renders the message and defines no export; otherwise
  the button's handler \<^verbatim>\<open>downloadCsv\<close> offers \<open>csvContent\<close> as a file.
\<close>

record download =
  filename :: string
  mime_type :: string
  content :: string

definition downloadCsv :: "jsval list \<Rightarrow> exn + download" where
  "downloadCsv results =
     (case csvContent results of
        Inl e \<Rightarrow> Inl e
      | Inr text \<Rightarrow>
          Inr \<lparr>filename = ''candidate_evaluation_results.csv'',
               mime_type = ''text/csv;charset=utf-8;'',
               content = text\<rparr>)"

datatype rendered = NoDataMessage | ResultsView "exn + download"

definition ResultsTable :: "jsval list \<Rightarrow> rendered" where
  "ResultsTable results =
     (if length results = 0 then NoDataMessage else ResultsView (downloadCsv results))"

section \<open>Reading the export back\<close>

text \<open>
  A reader for one exported field, as the specification words it: unwrap the surrounding
  double quotes, collapse each doubled double quote to one.
\<close>

fun collapse_quotes :: "string \<Rightarrow> string" where
  "collapse_quotes (c # d # cs) =
     (if c = dq \<and> d = dq then dq # collapse_quotes cs else c # collapse_quotes (d # cs))"
| "collapse_quotes cs = cs"

definition csv_read_field :: "string \<Rightarrow> string option" where
  "csv_read_field f =
     (case f of
        [] \<Rightarrow> None
      | c # cs \<Rightarrow>
          if c = dq \<and> cs \<noteq> [] \<and> last cs = dq then Some (collapse_quotes (butlast cs)) else None)"

text \<open>
  A reader for one record of quoted fields: \<open>read_quoted\<close> reads a field's text after its
  opening quote up to the closing one and returns it with what follows; \<open>read_record\<close>
  reads the fields between the commas.
\<close>

fun read_quoted :: "string \<Rightarrow> (string \<times> string) option" where
  "read_quoted [] = None"
| "read_quoted (c # cs) =
     (if c = dq then
        (case cs of
           [] \<Rightarrow> Some ([], [])
         | d # ds \<Rightarrow>
             if d = dq then map_option (\<lambda>fr. (dq # fst fr, snd fr)) (read_quoted ds)
             else Some ([], cs))
      else map_option (\<lambda>fr. (c # fst fr, snd fr)) (read_quoted cs))"

function read_record :: "string \<Rightarrow> string list option" where
  "read_record s =
     (case s of
        [] \<Rightarrow> None
      | c # cs \<Rightarrow>
          if c = dq then
            (case read_quoted cs of
               None \<Rightarrow> None
             | Some fr \<Rightarrow>
                 (case snd fr of
                    [] \<Rightarrow> Some [fst fr]
                  | d # ds \<Rightarrow>
                      if d = CHR '','' then map_option (\<lambda>fs. fst fr # fs) (read_record ds)
                      else None))
          else None)"
  by pat_completeness auto
termination
proof (relation "measure length")
  show "wf (measure length)" by simp
next
  fix s :: string and c cs fr d ds
  assume "s = c # cs" "read_quoted cs = Some fr" "snd fr = d # ds"
  then have "read_quoted cs = Some (fst fr, d # ds)"
    by (cases fr) simp
  moreover have "read_quoted t = Some (f, r) \<Longrightarrow> length r < length t" for t f r
    by (induction t arbitrary: f r rule: read_quoted.induct)
       (fastforce split: if_splits list.splits)+
  ultimately have "length (d # ds) < length cs"
    by blast
  with \<open>s = c # cs\<close> show "(ds, s) \<in> measure length" by simp
qed

declare read_record.simps [simp del]

text \<open>What a reader gets back from an exported row: field \<open>i\<close> alone, and the whole record.\<close>

definition read_field_back :: "nat \<Rightarrow> jsval \<Rightarrow> exn + string option" where
  "read_field_back i result =
     (case row_fields result of
        Inl e \<Rightarrow> Inl e
      | Inr fs \<Rightarrow> Inr (if i < length fs then csv_read_field (fs ! i) else None))"


text \<open>
  The Results whose export cannot throw: objects in which every value that is converted to
  a string is printable (the file name, the score, the status or its default, the elements
  of the evidence, the values of the scores) and in which \<^verbatim>\<open>cited_evidence\<close>, when it is
  truthy, is an array. \<open>field_of\<close> reads a property where reading cannot throw.
\<close>

fun is_object :: "jsval \<Rightarrow> bool" where
  "is_object (JObj kvs) = True"
| "is_object v = False"

fun is_array :: "jsval \<Rightarrow> bool" where
  "is_array (JArr vs) = True"
| "is_array v = False"

definition field_of :: "jsval \<Rightarrow> string \<Rightarrow> jsval" where
  "field_of v k = (case getp v k of Inl e \<Rightarrow> JUndefined | Inr x \<Rightarrow> x)"

definition details_of :: "jsval \<Rightarrow> jsval" where
  "details_of result = js_or (field_of result ''evaluation_details'') (JObj [])"

definition printable_scores :: "jsval \<Rightarrow> bool" where
  "printable_scores cs =
     (if truthy cs then
        (case Object_entries cs of
           Inl e \<Rightarrow> False
         | Inr es \<Rightarrow> list_all (\<lambda>kv. printable (snd kv)) es)
      else True)"

definition joinable :: "jsval \<Rightarrow> bool" where
  "joinable ce = (if truthy ce then is_array ce \<and> printable ce else True)"

definition exportable :: "jsval \<Rightarrow> bool" where
  "exportable result =
     (is_object result
      \<and> printable (field_of result ''file_name'')
      \<and> printable (field_of result ''score'')
      \<and> printable (js_or (field_of (details_of result) ''pass_fail_status'') (JStr ''N/A''))
      \<and> joinable (field_of (details_of result) ''cited_evidence'')
      \<and> printable_scores (field_of (details_of result) ''competency_scores''))"

text \<open>
  Decoding a JSON string literal (RFC 8259) whose characters are 8-bit: the inverse of
  \<open>QuoteJSONString\<close>. \<open>None\<close> is a text that is no such literal (or one with an escape
  beyond \<^verbatim>\<open>\u00ff\<close>, which has no 8-bit character).
\<close>

definition hex_value :: "char \<Rightarrow> nat option" where
  "hex_value c =
     (let n = (of_char c :: nat) in
      if 48 \<le> n \<and> n \<le> 57 then Some (n - 48)
      else if 97 \<le> n \<and> n \<le> 102 then Some (n - 87)
      else if 65 \<le> n \<and> n \<le> 70 then Some (n - 55)
      else None)"

definition unicode_escape :: "char \<Rightarrow> char \<Rightarrow> char \<Rightarrow> char \<Rightarrow> char option" where
  "unicode_escape a b c d =
     (case (hex_value a, hex_value b, hex_value c, hex_value d) of
        (Some h3, Some h2, Some h1, Some h0) \<Rightarrow>
          if h3 = 0 \<and> h2 = 0 then Some (char_of (16 * h1 + h0)) else None
      | _ \<Rightarrow> None)"

fun json_unescape :: "string \<Rightarrow> string option" where
  "json_unescape [] = Some []"
| "json_unescape (c # cs) =
     (if c = bslash then
        (case cs of
           [] \<Rightarrow> None
         | e # r \<Rightarrow>
             if e = CHR ''b'' then map_option (\<lambda>t. CHR 0x08 # t) (json_unescape r)
             else if e = CHR ''t'' then map_option (\<lambda>t. CHR 0x09 # t) (json_unescape r)
             else if e = CHR ''n'' then map_option (\<lambda>t. CHR 0x0A # t) (json_unescape r)
             else if e = CHR ''f'' then map_option (\<lambda>t. CHR 0x0C # t) (json_unescape r)
             else if e = CHR ''r'' then map_option (\<lambda>t. CHR 0x0D # t) (json_unescape r)
             else if e = dq then map_option (\<lambda>t. dq # t) (json_unescape r)
             else if e = bslash then map_option (\<lambda>t. bslash # t) (json_unescape r)
             else if e = CHR ''/'' then map_option (\<lambda>t. CHR ''/'' # t) (json_unescape r)
             else if e = CHR ''u'' then
               (case r of
                  h3 # h2 # h1 # h0 # r' \<Rightarrow>
                    (case unicode_escape h3 h2 h1 h0 of
                       None \<Rightarrow> None
                     | Some u \<Rightarrow> map_option (\<lambda>t. u # t) (json_unescape r'))
                | _ \<Rightarrow> None)
             else None)
      else if c = dq \<or> (of_char c :: nat) < 32 then None
      else map_option (\<lambda>t. c # t) (json_unescape cs))"

definition JSON_parse_string :: "string \<Rightarrow> string option" where
  "JSON_parse_string t =
     (case t of
        [] \<Rightarrow> None
      | c # cs \<Rightarrow>
          if c = dq \<and> cs \<noteq> [] \<and> last cs = dq then json_unescape (butlast cs) else None)"

section \<open>The API client\<close>

text \<open>
  \<^verbatim>\<open>fetch\<close> is the environment: a request is answered by a response, or the call rejects.
  Of a response the client reads \<^verbatim>\<open>ok\<close> and \<^verbatim>\<open>json()\<close>; the latter is the parsed body, or
  the \<^verbatim>\<open>SyntaxError\<close> of a body that is not JSON.
\<close>

record File =
  name :: string
  data :: string

datatype form_value = FText string | FFile File

record request =
  url :: string
  http_method :: string
  formData :: "(string \<times> form_value) list option"

record response =
  ok :: bool
  json :: "exn + jsval"

type_synonym fetch = "request \<Rightarrow> exn + response"

text \<open>\<^verbatim>\<open>import.meta.env.PROD ? '/' : 'http://localhost:8000'\<close>\<close>

definition BASE_URL :: "bool \<Rightarrow> string" where
  "BASE_URL production = (if production then ''/'' else ''http://localhost:8000'')"

definition getRoles :: "string \<Rightarrow> fetch \<Rightarrow> exn + jsval" where
  "getRoles base fetch =
     (case fetch \<lparr>url = base @ ''/api/roles'', http_method = ''GET'', formData = None\<rparr> of
        Inl error \<Rightarrow> Inl error
      | Inr response \<Rightarrow>
          if \<not> ok response then
            (case json response of
               Inl error \<Rightarrow> Inl error
             | Inr errorData \<Rightarrow>
                 (case getp errorData ''detail'' of
                    Inl error \<Rightarrow> Inl error
                  | Inr detail \<Rightarrow>
                      (case to_string (js_or detail (JStr ''Failed to fetch roles'')) of
                         Inl error \<Rightarrow> Inl error
                       | Inr text \<Rightarrow> Inl (Error text))))
          else json response)"

text \<open>
  The form of \<^verbatim>\<open>createRole\<close>: \<^verbatim>\<open>old_rubric\<close> is appended under \<^verbatim>\<open>if (oldRubric)\<close>, and
  \<^verbatim>\<open>append\<close> converts a value that is no file to a string.
\<close>

definition createRole_formData ::
  "string \<Rightarrow> string \<Rightarrow> jsval \<Rightarrow> exn + (string \<times> form_value) list" where
  "createRole_formData title description oldRubric =
     (if truthy oldRubric then
        (case to_string oldRubric of
           Inl e \<Rightarrow> Inl e
         | Inr text \<Rightarrow>
             Inr [(''title'', FText title), (''description'', FText description),
                  (''old_rubric'', FText text)])
      else Inr [(''title'', FText title), (''description'', FText description)])"

definition createRole :: "string \<Rightarrow> fetch \<Rightarrow> string \<Rightarrow> string \<Rightarrow> jsval \<Rightarrow> exn + jsval" where
  "createRole base fetch title description oldRubric =
     (case createRole_formData title description oldRubric of
        Inl error \<Rightarrow> Inl error
      | Inr form \<Rightarrow>
     (case fetch \<lparr>url = base @ ''/api/roles'', http_method = ''POST'', formData = Some form\<rparr> of
        Inl error \<Rightarrow> Inl error
      | Inr response \<Rightarrow>
          if \<not> ok response then
            (case json response of
               Inl error \<Rightarrow> Inl error
             | Inr errorData \<Rightarrow>
                 (case getp errorData ''detail'' of
                    Inl error \<Rightarrow> Inl error
                  | Inr detail \<Rightarrow>
                      (case to_string (js_or detail (JStr ''Failed to create role'')) of
                         Inl error \<Rightarrow> Inl error
                       | Inr text \<Rightarrow> Inl (Error text))))
          else json response))"

definition getRoleDetails :: "string \<Rightarrow> fetch \<Rightarrow> string \<Rightarrow> exn + jsval" where
  "getRoleDetails base fetch roleId =
     (case fetch \<lparr>url = base @ ''/api/roles/'' @ roleId, http_method = ''GET'', formData = None\<rparr> of
        Inl error \<Rightarrow> Inl error
      | Inr response \<Rightarrow>
          if \<not> ok response then
            (case json response of
               Inl error \<Rightarrow> Inl error
             | Inr errorData \<Rightarrow>
                 (case getp errorData ''detail'' of
                    Inl error \<Rightarrow> Inl error
                  | Inr detail \<Rightarrow>
                      (case to_string (js_or detail (JStr ''Failed to fetch role details'')) of
                         Inl error \<Rightarrow> Inl error
                       | Inr text \<Rightarrow> Inl (Error text))))
          else json response)"

definition getRoleResults :: "string \<Rightarrow> fetch \<Rightarrow> string \<Rightarrow> exn + jsval" where
  "getRoleResults base fetch roleId =
     (case fetch \<lparr>url = base @ ''/api/roles/'' @ roleId @ ''/results'', http_method = ''GET'',
                   formData = None\<rparr> of
        Inl error \<Rightarrow> Inl error
      | Inr response \<Rightarrow>
          if \<not> ok response then
            (case json response of
               Inl error \<Rightarrow> Inl error
             | Inr errorData \<Rightarrow>
                 (case getp errorData ''detail'' of
                    Inl error \<Rightarrow> Inl error
                  | Inr detail \<Rightarrow>
                      (case to_string (js_or detail (JStr ''Failed to fetch role results'')) of
                         Inl error \<Rightarrow> Inl error
                       | Inr text \<Rightarrow> Inl (Error text))))
          else json response)"

definition uploadResume :: "string \<Rightarrow> fetch \<Rightarrow> string \<Rightarrow> File \<Rightarrow> exn + jsval" where
  "uploadResume base fetch roleId file =
     (case fetch \<lparr>url = base @ ''/api/roles/'' @ roleId @ ''/upload-resume'', http_method = ''POST'',
                   formData = Some [(''resume_file'', FFile file)]\<rparr> of
        Inl error \<Rightarrow> Inl error
      | Inr response \<Rightarrow>
          if \<not> ok response then
            (case json response of
               Inl error \<Rightarrow> Inl error
             | Inr errorData \<Rightarrow>
                 (case getp errorData ''detail'' of
                    Inl error \<Rightarrow> Inl error
                  | Inr detail \<Rightarrow>
                      (case to_string (js_or detail (JStr ''Failed to upload resume'')) of
                         Inl error \<Rightarrow> Inl error
                       | Inr text \<Rightarrow> Inl (Error text))))
          else json response)"

text \<open>The five operations under one name, to state a property of all of them at once.\<close>

datatype operation =
    GetRoles
  | CreateRole string string jsval
  | GetRoleDetails string
  | GetRoleResults string
  | UploadResume string File

fun call :: "string \<Rightarrow> fetch \<Rightarrow> operation \<Rightarrow> exn + jsval" where
  "call base fetch GetRoles = getRoles base fetch"
| "call base fetch (CreateRole title description oldRubric) =
     createRole base fetch title description oldRubric"
| "call base fetch (GetRoleDetails roleId) = getRoleDetails base fetch roleId"
| "call base fetch (GetRoleResults roleId) = getRoleResults base fetch roleId"
| "call base fetch (UploadResume roleId file) = uploadResume base fetch roleId file"

fun default_message :: "operation \<Rightarrow> string" where
  "default_message GetRoles = ''Failed to fetch roles''"
| "default_message (CreateRole title description oldRubric) = ''Failed to create role''"
| "default_message (GetRoleDetails roleId) = ''Failed to fetch role details''"
| "default_message (GetRoleResults roleId) = ''Failed to fetch role results''"
| "default_message (UploadResume roleId file) = ''Failed to upload resume''"

text \<open>The request each operation passes to \<^verbatim>\<open>fetch\<close>, when building it does not throw.\<close>

fun request_of :: "string \<Rightarrow> operation \<Rightarrow> exn + request" where
  "request_of base GetRoles =
     Inr \<lparr>url = base @ ''/api/roles'', http_method = ''GET'', formData = None\<rparr>"
| "request_of base (CreateRole title description oldRubric) =
     (case createRole_formData title description oldRubric of
        Inl e \<Rightarrow> Inl e
      | Inr form \<Rightarrow>
          Inr \<lparr>url = base @ ''/api/roles'', http_method = ''POST'', formData = Some form\<rparr>)"
| "request_of base (GetRoleDetails roleId) =
     Inr \<lparr>url = base @ ''/api/roles/'' @ roleId, http_method = ''GET'', formData = None\<rparr>"
| "request_of base (GetRoleResults roleId) =
     Inr \<lparr>url = base @ ''/api/roles/'' @ roleId @ ''/results'', http_method = ''GET'',
          formData = None\<rparr>"
| "request_of base (UploadResume roleId file) =
     Inr \<lparr>url = base @ ''/api/roles/'' @ roleId @ ''/upload-resume'', http_method = ''POST'',
          formData = Some [(''resume_file'', FFile file)]\<rparr>"

text \<open>
  A server that answers every request with status 200 and a body that repeats the request:
  its URL, its method and the fields of its form.
\<close>

definition echo :: fetch where
  "echo req =
     Inr \<lparr>ok = True,
          json = Inr (JObj [(''url'', JStr (url req)),
                            (''method'', JStr (http_method req)),
                            (''form'',
                             case formData req of
                               None \<Rightarrow> JNull
                             | Some form \<Rightarrow>
                                 JObj (map (\<lambda>(k, v). (k, case v of FText s \<Rightarrow> JStr s
                                                            | FFile f \<Rightarrow> JStr (name f))) form))])\<rparr>"

section \<open>The role creation form\<close>

text \<open>The template literal \<^verbatim>\<open>oldRubricTemplate\<close>: a line break, then its lines, each ended by one.\<close>

definition oldRubricTemplate :: string where
  "oldRubricTemplate = concat (map (\<lambda>l. l @ ''\<newline>'')
     [[],
      ''Competency 1: Strategic Growth & Client Alignment (Weight: 25%)'',
      ''4 (Exceeds):'',
      '' Proactively identifies and implements significant program growth, service expansion, and process improvements. Consistently leads impactful business reviews with insightful strategic recommendations. Builds exceptionally strong, trust-based client relationships at senior levels.'',
      [],
      ''3 (Meets):'',
      '' Develops and executes strategic initiatives effectively. Builds and maintains solid client relationships with proactive communication. Leads business reviews capably, providing performance insights. Identifies opportunities for program growth.'',
      [],
      ''2 (Approaches):'',
      '' Shows understanding but limited experience in independent development/execution. Client communication experience, but may lack proactive strategic relationship building. Participated in, not led, business reviews.'',
      [],
      ''1 (Below):'',
      '' Limited/no experience in strategic initiatives, senior client relationships, or leading business reviews.'',
      [],
      ''Competency 2: Ad Operations, Account Onboarding & Management (Weight: 20%)'',
      ''4 (Exceeds):'',
      '' 2+ yrs & deep expertise in Ad Ops, seamless onboarding, significantly improving activation/retention. Drives growth/upsell, develops highly scalable onboarding. Expert in digital ad platforms.'',
      [],
      ''3 (Meets):'',
      '' 2+ yrs in Ad Ops & Acc Mgt. Effective onboarding, tracks metrics, works with AMs for growth, refined onboarding processes. Proficient with digital ad platforms.'',
      [],
      ''2 (Approaches):'',
      '' Some Ad Ops/Acc Mgt experience, may not meet 2+ yrs. Understands onboarding, limited optimization experience. Familiar with some platforms.'',
      [],
      ''1 (Below):'',
      '' Minimal experience in Ad Ops, onboarding, or account mgt. Little/no platform experience.'',
      [],
      ''Competency 3: Customer Success Management & Support Excellence (Weight: 20%)'',
      ''4 (Exceeds):'',
      '' 7+ yrs leading CS, exceeds CSAT via proactive strategies & innovative self-service. Expertly monitors lifecycle, resolves complex pain points. Drives cross-functional improvements. Deep expertise with CS platforms.'',
      [],
      ''3 (Meets):'',
      '' 7+ yrs in CS. Monitors metrics, identifies pain points. Oversees support effectively, maintains good CSAT. Contributes to self-service. Proficient with CS strategies/platforms.'',
      [],
      ''2 (Approaches):'',
      '' Some CS/support experience, may not meet 7+ yrs/strategic depth. Understands CSAT/support ops, limited proactive strategy/self-service. Used CS platforms, not strategic implementation.'',
      [],
      ''1 (Below):'',
      '' Little/no strategic CS experience or overseeing support.'',
      [],
      ''Competency 4: Leadership & People Management (Weight: 20%)'',
      ''4 (Exceeds):'',
      '' 4+ yrs leading/inspiring large, cross-functional teams to high performance. Fosters strong culture (collaboration, innovation, accountability). Established comprehensive career dev paths, coaching, training with measurable growth.'',
      [],
      ''3 (Meets):'',
      '' 2+ yrs managing cross-functional teams. Fosters positive culture. Implements coaching/training. Ensures team alignment.'',
      [],
      ''2 (Approaches):'',
      '' Team lead/supervisory experience, may not meet 2+ yrs/cross-functional. Understands mentorship/development, limited strategic application.'',
      [],
      ''1 (Below):'',
      '' No significant team management experience.'',
      [],
      ''Competency 5: Process Improvement, Automation & Reporting (Weight: 15%)'',
      ''4 (Exceeds):'',
      '' Proven track record of significant automation & process improvements enhancing efficiency/scalability (onboarding, self-service). Expert in data/reporting tools for insights & workflow optimization. Ensures highly accurate, insightful real-time reporting.'',
      [],
      ''3 (Meets):'',
      '' Experience developing scalable processes, optimizing support models. Ensures accurate reporting, works with data analysts. Drove some automation/efficiencies. Familiar with reporting/workflow tools.'',
      [],
      ''2 (Approaches):'',
      '' Aware of process improvement/automation, limited hands-on experience. Basic reporting understanding, may lack complex tool experience.'',
      [],
      ''1 (Below):'',
      '' Little/no experience in process improvement, automation, or scalable solutions.'',
      [],
      ''Overall Requirements & Communication (Pass/Fail)'',
      ''Pass:'',
      '' Meets 2+ yrs Ad Ops/Acc Mgt/CS/Client Ops AND 2+ yrs team mgt (cross-functional). Communication clear for senior stakeholders.'',
      [],
      ''Fail:'',
      '' Does not meet experience minimums OR communication is a concern.''])"

text \<open>
  The state of the form (\<^verbatim>\<open>useState\<close>), with the alerts shown and the route, which
  \<^verbatim>\<open>navigate\<close> sets. \<^verbatim>\<open>error\<close> is \<^verbatim>\<open>null\<close> or a message.
\<close>

record form_state =
  title :: string
  description :: string
  loading :: bool
  error :: "string option"
  alerts :: "string list"
  location :: string

text \<open>
  \<^verbatim>\<open>handleSubmit\<close>: the state when the request is sent, and the state once
  \<^verbatim>\<open>createRole\<close> has settled.
\<close>

definition submit_start :: "form_state \<Rightarrow> form_state" where
  "submit_start st = st\<lparr>loading := True, error := None\<rparr>"

definition submit_settle :: "exn + jsval \<Rightarrow> form_state \<Rightarrow> form_state" where
  "submit_settle outcome st =
     (case outcome of
        Inr role \<Rightarrow>
          st\<lparr>alerts := alerts st @ [''Role created and rubric generated successfully!''],
             location := ''/'',
             loading := False\<rparr>
      | Inl err \<Rightarrow> st\<lparr>error := Some (message err), loading := False\<rparr>)"

definition handleSubmit :: "string \<Rightarrow> fetch \<Rightarrow> form_state \<Rightarrow> form_state" where
  "handleSubmit base fetch st =
     submit_settle (createRole base fetch (title st) (description st) (JStr oldRubricTemplate))
       (submit_start st)"

section \<open>Example values\<close>

definition alice :: jsval where
  "alice =
     JObj [(''file_name'', JStr ''alice.pdf''),
           (''score'', js_integer 82),
           (''evaluation_details'',
            JObj [(''pass_fail_status'', JStr ''Pass''),
                  (''justification'', JStr ''Strong, clear communicator''),
                  (''cited_evidence'', JArr [JStr ''5 yrs mgmt'']),
                  (''competency_scores'', JObj [(''Leadership'', js_integer 4)])])]"

definition bob :: jsval where
  "bob = JObj [(''file_name'', JStr ''bob.pdf''), (''score'', js_integer 40)]"

definition ivy :: jsval where
  "ivy = JObj [(''file_name'', JStr ''ivy.pdf''), (''score'', JNum ''82.5'')]"

definition carol :: jsval where
  \<open>carol =
     JObj [(''file_name'', JStr ''carol.pdf''),
           (''score'', js_integer 77),
           (''evaluation_details'',
            JObj [(''pass_fail_status'', JStr ''Pass''),
                  (''justification'', JStr ''Led 5 people, shipped "Atlas"''),
                  (''cited_evidence'', JArr [JStr ''led team'', JStr ''shipped Atlas'']),
                  (''competency_scores'', JObj [(''Leadership'', js_integer 3), (''Delivery'', js_integer 4)])])]\<close>

definition dana :: jsval where
  "dana =
     JObj [(''file_name'', JStr ''dana.pdf''),
           (''score'', js_integer 65),
           (''evaluation_details'',
            JObj [(''pass_fail_status'', JStr ''Fail''),
                  (''justification'', JStr ''Too junior''),
                  (''cited_evidence'', JArr []),
                  (''competency_scores'',
                   JObj [(''Teamwork'', js_integer 3), (''10'', js_integer 4), (''2'', js_integer 5)])])]"

definition erin :: jsval where
  "erin =
     JObj [(''score'', js_integer 12),
           (''evaluation_details'', JObj [(''cited_evidence'', JStr ''5 yrs mgmt'')])]"


definition gail :: jsval where
  "gail = JObj [(''file_name'', JObj [(''toString'', js_integer 1)]), (''score'', js_integer 3)]"

definition henry :: jsval where
  "henry =
     JObj [(''file_name'', JStr ''henry.pdf''),
           (''score'', JNum ''82.5''),
           (''evaluation_details'',
            JObj [(''pass_fail_status'', JStr ''Pass''),
                  (''competency_scores'', JObj [(''Leadership'', JNum ''3.5'')])])]"

text \<open>
  Responses with a status outside 200--299: a 400 with a JSON body, a 502 whose body is an
  HTML page, a 404 with an empty JSON object, a 500 whose body is \<^verbatim>\<open>null\<close>, a 422 whose
  \<^verbatim>\<open>detail\<close> is a list of objects, and one whose \<^verbatim>\<open>detail\<close> is an object with a property
  \<^verbatim>\<open>toString\<close>.
\<close>

definition title_required :: response where
  "title_required = \<lparr>ok = False, json = Inr (JObj [(''detail'', JStr ''title required'')])\<rparr>"

definition bad_gateway :: response where
  "bad_gateway =
     \<lparr>ok = False, json = Inl (SyntaxError ''Unexpected token < in JSON at position 0'')\<rparr>"

definition not_found :: response where
  "not_found = \<lparr>ok = False, json = Inr (JObj [])\<rparr>"

definition null_body :: response where
  "null_body = \<lparr>ok = False, json = Inr JNull\<rparr>"

definition validation_errors :: response where
  "validation_errors =
     \<lparr>ok = False,
      json = Inr (JObj [(''detail'', JArr [JObj [(''msg'', JStr ''field required'')],
                                           JObj [(''msg'', JStr ''field required'')]])])\<rparr>"

definition odd_detail :: response where
  "odd_detail =
     \<lparr>ok = False, json = Inr (JObj [(''detail'', JObj [(''toString'', js_integer 1)])])\<rparr>"

definition blank_form :: form_state where
  "blank_form =
     \<lparr>title = '' '', description = ''Own the test strategy'', loading = False, error = None,
      alerts = [], location = ''/create-role''\<rparr>"

section \<open>Reading quoted fields back\<close>

lemma replace_quotes_simps:
  "replace_quotes [] = []"
  "replace_quotes (c # s) = (if c = dq then [dq, dq] else [c]) @ replace_quotes s"
  by (simp_all add: replace_quotes_def)

lemma collapse_quotes_other: "c \<noteq> dq \<Longrightarrow> collapse_quotes (c # xs) = c # collapse_quotes xs"
  by (cases xs) simp_all

lemma collapse_replace: "collapse_quotes (replace_quotes s) = s"
  by (induction s) (simp_all add: replace_quotes_simps collapse_quotes_other)

lemma csv_read_quote_text: "csv_read_field (quote_text s) = Some s"
  by (simp add: csv_read_field_def quote_text_def collapse_replace)

lemma read_quoted_replace:
  "rest = [] \<or> hd rest \<noteq> dq \<Longrightarrow> read_quoted (replace_quotes s @ dq # rest) = Some (s, rest)"
proof (induction s)
  case Nil
  then show ?case by (cases rest) (auto simp: replace_quotes_simps)
next
  case (Cons c s)
  then show ?case by (auto simp: replace_quotes_simps)
qed

lemma read_record_quote:
  "read_record (dq # cs) =
     (case read_quoted cs of
        None \<Rightarrow> None
      | Some fr \<Rightarrow>
          (case snd fr of
             [] \<Rightarrow> Some [fst fr]
           | d # ds \<Rightarrow>
               if d = CHR '','' then map_option (\<lambda>fs. fst fr # fs) (read_record ds) else None))"
  by (subst read_record.simps) simp

lemma read_record_fields:
  "ss \<noteq> [] \<Longrightarrow> read_record (js_join '','' (map quote_text ss)) = Some ss"
proof (induction ss rule: induct_list012)
  case 1
  then show ?case by simp
next
  case (2 s)
  have "read_quoted (replace_quotes s @ dq # []) = Some (s, [])"
    by (rule read_quoted_replace) simp
  then show ?case
    by (simp add: read_record_quote quote_text_def)
next
  case (3 s t ts)
  let ?rest = "CHR '','' # js_join '','' (map quote_text (t # ts))"
  have rq: "read_quoted (replace_quotes s @ dq # ?rest) = Some (s, ?rest)"
    by (rule read_quoted_replace) (simp add: dq_def)
  have rr: "read_record (js_join '','' (map quote_text (t # ts))) = Some (t # ts)"
    using 3 by simp
  have "js_join '','' (map quote_text (s # t # ts)) = quote_text s @ ?rest"
    by simp
  also have "\<dots> = dq # (replace_quotes s @ dq # ?rest)"
    by (simp add: quote_text_def [of s])
  finally have eq: "js_join '','' (map quote_text (s # t # ts))
      = dq # (replace_quotes s @ dq # ?rest)" .
  have "read_record (js_join '','' (map quote_text (s # t # ts)))
      = read_record (dq # (replace_quotes s @ dq # ?rest))"
    by (simp only: eq)
  also have "\<dots> = Some (s # t # ts)"
    by (simp only: read_record_quote rq rr option.case snd_conv fst_conv list.case
          if_True option.map refl simp_thms)
  finally show ?case by simp
qed

section \<open>Callbacks that throw, values that print\<close>

lemma map_throwing_all2:
  "map_throwing f xs = Inr ys \<Longrightarrow> list_all2 (\<lambda>x y. f x = Inr y) xs ys"
  by (induction xs arbitrary: ys) (auto split: sum.splits)

lemma map_throwing_Inr:
  "list_all2 (\<lambda>x y. f x = Inr y) xs ys \<Longrightarrow> map_throwing f xs = Inr ys"
  by (induction xs ys rule: list_all2_induct) simp_all

lemma map_throwing_length: "map_throwing f xs = Inr ys \<Longrightarrow> length ys = length xs"
  by (drule map_throwing_all2) (rule list_all2_lengthD [symmetric])

lemma map_throwing_nth:
  "map_throwing f xs = Inr ys \<Longrightarrow> i < length xs \<Longrightarrow> f (xs ! i) = Inr (ys ! i)"
  using list_all2_nthD [OF map_throwing_all2, of f xs ys i] by simp

lemma to_string_printable:
  "(\<exists>s. to_string v = Inr s) = printable v"
  "(\<exists>ss. to_strings vs = Inr ss) = list_all printable vs"
proof (induction v and vs rule: to_string_to_strings.induct)
  case (6 vs)
  then show ?case by (auto split: sum.splits)
next
  case (9 v vs)
  then show ?case by (cases v) (auto split: sum.splits)
qed simp_all

lemma printable_to_string: "printable v \<Longrightarrow> \<exists>s. to_string v = Inr s"
  by (simp add: to_string_printable)

lemma quote_field_printable: "printable v \<Longrightarrow> \<exists>s. to_string v = Inr s \<and> quote_field v = Inr (quote_text s)"
  using printable_to_string [of v] by (auto simp: quote_field_def)

section \<open>A JSON string literal decodes to its text\<close>

lemma hex_value_hex_digit: "d < 16 \<Longrightarrow> hex_value (hex_digit d) = Some d"
proof -
  assume "d < 16"
  then have "d \<in> {0, 1, 2, 3, 4, 5, 6, 7, 8, 9, 10, 11, 12, 13, 14, 15}"
    by simp arith
  then show ?thesis
    by (auto simp: hex_digit_def hex_value_def)
qed

lemma unicode_escape_control:
  assumes "(of_char c :: nat) < 32"
  shows "unicode_escape (CHR ''0'') (CHR ''0'') (hex_digit (of_char c div 16)) (hex_digit (of_char c mod 16)) = Some c"
proof -
  let ?n = "of_char c :: nat"
  have "?n div 16 < 16" using assms by simp
  then have h1: "hex_value (hex_digit (?n div 16)) = Some (?n div 16)"
    by (rule hex_value_hex_digit)
  have h0: "hex_value (hex_digit (?n mod 16)) = Some (?n mod 16)"
    by (rule hex_value_hex_digit) simp
  have z: "hex_value (CHR ''0'') = Some 0"
    by (simp add: hex_value_def)
  have "char_of (16 * (?n div 16) + ?n mod 16) = c"
    by simp
  then show ?thesis
    by (simp add: unicode_escape_def h1 h0 z)
qed

lemma json_unescape_escape_char:
  "json_unescape (escape_char c @ rest) = map_option (\<lambda>t. c # t) (json_unescape rest)"
proof (cases "c \<in> {CHR 0x08, CHR 0x09, CHR 0x0A, CHR 0x0C, CHR 0x0D, dq, bslash}")
  case True
  then show ?thesis
    by (auto simp: escape_char_def dq_def bslash_def)
next
  case False
  show ?thesis
  proof (cases "(of_char c :: nat) < 32")
    case True
    with False have "escape_char c = [bslash, CHR ''u'', CHR ''0'', CHR ''0'',
         hex_digit (of_char c div 16), hex_digit (of_char c mod 16)]"
      by (simp add: escape_char_def)
    then show ?thesis
      using unicode_escape_control [OF True] by (simp add: dq_def bslash_def)
  next
    case ge: False
    with False have "escape_char c = [c]"
      by (simp add: escape_char_def)
    with False ge show ?thesis by simp
  qed
qed

lemma json_unescape_escape: "json_unescape (concat (map escape_char s)) = Some s"
  by (induction s) (simp_all add: json_unescape_escape_char)

lemma JSON_parse_quote: "JSON_parse_string (QuoteJSONString s) = Some s"
  by (simp add: JSON_parse_string_def QuoteJSONString_def json_unescape_escape)

section \<open>The values of a row\<close>

lemma getp_truthy: "truthy d \<Longrightarrow> \<exists>v. getp d k = Inr v"
  by (cases d) simp_all

lemma getp_field_of: "truthy d \<Longrightarrow> getp d k = Inr (field_of d k)"
  by (cases d) (simp_all add: field_of_def)

lemma stringified_JStr: "stringified (JStr s) = JStr (QuoteJSONString s)"
  by (simp add: stringified_def)

lemma to_string_stringified: "\<exists>s. to_string (stringified v) = Inr s"
  by (simp add: stringified_def split: option.splits)

lemma row_fields_values:
  "row_fields result = Inr fs \<Longrightarrow> \<exists>vs. row_values result = Inr vs \<and> map_throwing quote_field vs = Inr fs"
  by (auto simp: row_fields_def split: sum.splits)

lemma read_field_back_nth:
  assumes "row_values result = Inr vs" and "row_fields result = Inr fs"
    and "i < length vs" and "to_string (vs ! i) = Inr s"
  shows "read_field_back i result = Inr (Some s)"
proof -
  from assms(1,2) have m: "map_throwing quote_field vs = Inr fs"
    by (simp add: row_fields_def)
  from map_throwing_nth [OF m assms(3)] assms(4) have "fs ! i = quote_text s"
    by (simp add: quote_field_def)
  moreover from map_throwing_length [OF m] assms(3) have "i < length fs"
    by simp
  ultimately show ?thesis
    by (simp add: read_field_back_def assms(2) csv_read_quote_text)
qed

lemma no_details_values:
  assumes "map_of kvs ''evaluation_details'' = None"
  shows "row_values (JObj kvs) =
     Inr [own_property kvs ''file_name'', own_property kvs ''score'', JStr ''N/A'',
          JStr [dq, dq], JStr [dq, dq], JStr [dq, dq]]"
  using assms
  by (simp add: row_values_def own_property_def js_or_def competencyScores_def
      citedEvidence_def stringified_JStr QuoteJSONString_def)

lemma row_values_details:
  assumes "getp result ''evaluation_details'' = Inr details" and "truthy details"
    and "row_fields result = Inr fs"
  shows "\<exists>file_name score status j ce cs.
           row_values result =
             Inr [file_name, score, status, stringified (js_or j (JStr [])),
                  stringified (JStr ce), stringified (JStr cs)]
           \<and> getp details ''justification'' = Inr j
           \<and> competencyScores details = Inr cs
           \<and> citedEvidence details = Inr ce"
  using assms
  by (auto simp: row_values_def row_fields_def js_or_def split: sum.splits)

lemma own_entries_no_index:
  "list_all (\<lambda>kv. \<not> is_array_index (fst kv)) kvs \<Longrightarrow> own_entries kvs = kvs"
proof -
  assume a: "list_all (\<lambda>kv. \<not> is_array_index (fst kv)) kvs"
  then have "filter (\<lambda>kv. is_array_index (fst kv)) kvs = []"
    by (simp add: list_all_iff filter_empty_conv)
  moreover from a have "filter (\<lambda>kv. \<not> is_array_index (fst kv)) kvs = kvs"
    by (simp add: list_all_iff filter_id_conv)
  ultimately show ?thesis
    by (simp add: own_entries_def)
qed

lemma competencyScores_object:
  "getp details ''competency_scores'' = Inr (JObj scores) \<Longrightarrow> competencyScores details = Inr cs \<Longrightarrow>
   \<exists>pairs. map_throwing pair_text (own_entries scores) = Inr pairs \<and> cs = js_join ''; '' pairs"
  by (auto simp: competencyScores_def split: sum.splits)

section \<open>The rows that are exported\<close>

text \<open>An object is exported without a throw exactly when it is \<open>exportable\<close>.\<close>

lemma pair_texts_printable:
  "list_all (\<lambda>kv. printable (snd kv)) es \<Longrightarrow> \<exists>pairs. map_throwing pair_text es = Inr pairs"
proof (induction es)
  case Nil
  then show ?case by simp
next
  case (Cons kv es)
  then obtain pairs where "map_throwing pair_text es = Inr pairs"
    by auto
  moreover from Cons.prems obtain s where "to_string (snd kv) = Inr s"
    using printable_to_string by auto
  ultimately show ?case
    by (cases kv) (simp add: pair_text_def)
qed

lemma competencyScores_printable:
  assumes "truthy details" and "printable_scores (field_of details ''competency_scores'')"
  shows "\<exists>cs. competencyScores details = Inr cs"
proof (cases "truthy (field_of details ''competency_scores'')")
  case True
  with assms(2) obtain es where es: "Object_entries (field_of details ''competency_scores'') = Inr es"
    and "list_all (\<lambda>kv. printable (snd kv)) es"
    by (auto simp: printable_scores_def split: sum.splits)
  then obtain pairs where "map_throwing pair_text es = Inr pairs"
    using pair_texts_printable by blast
  with True es show ?thesis
    by (simp add: competencyScores_def getp_field_of [OF assms(1)])
next
  case False
  then show ?thesis
    by (simp add: competencyScores_def getp_field_of [OF assms(1)])
qed

lemma citedEvidence_joinable:
  assumes "truthy details" and "joinable (field_of details ''cited_evidence'')"
  shows "\<exists>ce. citedEvidence details = Inr ce"
proof (cases "truthy (field_of details ''cited_evidence'')")
  case True
  with assms(2) obtain vs where vs: "field_of details ''cited_evidence'' = JArr vs"
    and "list_all printable vs"
    by (cases "field_of details ''cited_evidence''") (auto simp: joinable_def)
  then obtain ss where "to_strings vs = Inr ss"
    using to_string_printable(2) [of vs] by auto
  with vs show ?thesis
    by (simp add: citedEvidence_def getp_field_of [OF assms(1)] array_join_def)
next
  case False
  then show ?thesis
    by (simp add: citedEvidence_def getp_field_of [OF assms(1)])
qed

lemma exportable_fields:
  assumes "exportable (JObj kvs)"
  shows "\<exists>file_name score rest.
           to_string (own_property kvs ''file_name'') = Inr file_name
           \<and> to_string (own_property kvs ''score'') = Inr score
           \<and> length rest = 4
           \<and> row_fields (JObj kvs) = Inr (map quote_text (file_name # score # rest))"
proof -
  let ?details = "details_of (JObj kvs)"
  have t: "truthy ?details"
    by (simp add: details_of_def js_or_def)
  have d: "js_or (own_property kvs ''evaluation_details'') (JObj []) = ?details"
    by (simp add: details_of_def field_of_def)
  from assms obtain cs where cs: "competencyScores ?details = Inr cs"
    using competencyScores_printable [OF t] by (auto simp: exportable_def)
  from assms obtain ce where ce: "citedEvidence ?details = Inr ce"
    using citedEvidence_joinable [OF t] by (auto simp: exportable_def)
  let ?status = "js_or (field_of ?details ''pass_fail_status'') (JStr ''N/A'')"
  let ?j = "stringified (js_or (field_of ?details ''justification'') (JStr []))"
  have vs: "row_values (JObj kvs) =
      Inr [own_property kvs ''file_name'', own_property kvs ''score'', ?status, ?j,
           stringified (JStr ce), stringified (JStr cs)]"
    by (simp add: row_values_def d cs ce getp_field_of [OF t] Let_def)
  from assms obtain file_name where fn: "to_string (own_property kvs ''file_name'') = Inr file_name"
    using printable_to_string [of "own_property kvs ''file_name''"]
    by (auto simp: exportable_def field_of_def)
  from assms obtain score where sc: "to_string (own_property kvs ''score'') = Inr score"
    using printable_to_string [of "own_property kvs ''score''"]
    by (auto simp: exportable_def field_of_def)
  from assms obtain status where st: "to_string ?status = Inr status"
    using printable_to_string [of ?status] by (auto simp: exportable_def)
  obtain j where j: "to_string ?j = Inr j"
    using to_string_stringified by blast
  obtain e where e: "to_string (stringified (JStr ce)) = Inr e"
    using to_string_stringified by blast
  obtain c where c: "to_string (stringified (JStr cs)) = Inr c"
    using to_string_stringified by blast
  have "row_fields (JObj kvs) = Inr (map quote_text (file_name # score # [status, j, e, c]))"
    by (simp add: row_fields_def vs quote_field_def fn sc st j e c)
  with fn sc show ?thesis
    by (intro exI [of _ file_name] exI [of _ score] exI [of _ "[status, j, e, c]"]) simp
qed

lemma exportable_row:
  assumes "exportable r"
  shows "\<exists>row kvs file_name score rest.
           csv_row r = Inr row \<and> r = JObj kvs
           \<and> to_string (own_property kvs ''file_name'') = Inr file_name
           \<and> to_string (own_property kvs ''score'') = Inr score
           \<and> length rest = 4
           \<and> read_record row = Some (file_name # score # rest)"
proof -
  from assms obtain kvs where r: "r = JObj kvs"
    by (cases r) (simp_all add: exportable_def)
  with assms obtain file_name score rest where
    fn: "to_string (own_property kvs ''file_name'') = Inr file_name"
    and sc: "to_string (own_property kvs ''score'') = Inr score"
    and rest: "length rest = 4"
    and fs: "row_fields (JObj kvs) = Inr (map quote_text (file_name # score # rest))"
    using exportable_fields by blast
  let ?ss = "file_name # score # rest"
  have "csv_row r = Inr (js_join '','' (map quote_text ?ss))"
    by (simp add: csv_row_def r fs)
  moreover have "read_record (js_join '','' (map quote_text ?ss)) = Some ?ss"
    by (rule read_record_fields) simp
  ultimately show ?thesis
    using r fn sc rest by blast
qed


lemma pair_texts_need_printable:
  "map_throwing pair_text es = Inr pairs \<Longrightarrow> list_all (\<lambda>kv. printable (snd kv)) es"
proof (induction es arbitrary: pairs)
  case Nil
  then show ?case by simp
next
  case (Cons kv es)
  then obtain s where "to_string (snd kv) = Inr s"
    by (cases kv) (auto simp: pair_text_def split: sum.splits)
  then have "printable (snd kv)"
    using to_string_printable(1) [of "snd kv"] by auto
  moreover from Cons have "list_all (\<lambda>kv. printable (snd kv)) es"
    by (auto split: sum.splits)
  ultimately show ?case by simp
qed

lemma competencyScores_needs_printable:
  assumes "truthy details" and "competencyScores details = Inr cs"
  shows "printable_scores (field_of details ''competency_scores'')"
  using assms pair_texts_need_printable
  by (auto simp: printable_scores_def competencyScores_def getp_field_of split: sum.splits if_splits)

lemma citedEvidence_needs_joinable:
  assumes "truthy details" and "citedEvidence details = Inr ce"
  shows "joinable (field_of details ''cited_evidence'')"
proof (cases "truthy (field_of details ''cited_evidence'')")
  case True
  with assms have j: "call_join (field_of details ''cited_evidence'') ''; '' = Inr ce"
    by (simp add: citedEvidence_def getp_field_of)
  then obtain vs where vs: "field_of details ''cited_evidence'' = JArr vs"
    by (cases "field_of details ''cited_evidence''") simp_all
  with j obtain ss where "to_strings vs = Inr ss"
    by (auto simp: array_join_def split: sum.splits)
  then have "list_all printable vs"
    using to_string_printable(2) [of vs] by auto
  with vs show ?thesis
    by (simp add: joinable_def)
next
  case False
  then show ?thesis by (simp add: joinable_def)
qed

lemma quote_field_needs_printable: "quote_field v = Inr f \<Longrightarrow> printable v"
  using to_string_printable(1) [of v] by (auto simp: quote_field_def split: sum.splits)

lemma exported_is_exportable:
  assumes "csv_row (JObj kvs) = Inr row"
  shows "exportable (JObj kvs)"
proof -
  let ?details = "details_of (JObj kvs)"
  have t: "truthy ?details"
    by (simp add: details_of_def js_or_def)
  have d: "js_or (own_property kvs ''evaluation_details'') (JObj []) = ?details"
    by (simp add: details_of_def field_of_def)
  from assms obtain fs where fs: "row_fields (JObj kvs) = Inr fs"
    by (auto simp: csv_row_def split: sum.splits)
  then obtain vs where vs: "row_values (JObj kvs) = Inr vs"
    and m: "map_throwing quote_field vs = Inr fs"
    using row_fields_values by blast
  from vs obtain cs ce where cs: "competencyScores ?details = Inr cs"
    and ce: "citedEvidence ?details = Inr ce"
    and vs': "vs = [own_property kvs ''file_name'', own_property kvs ''score'',
                    js_or (field_of ?details ''pass_fail_status'') (JStr ''N/A''),
                    stringified (js_or (field_of ?details ''justification'') (JStr [])),
                    stringified (JStr ce), stringified (JStr cs)]"
    by (auto simp: row_values_def d Let_def getp_field_of [OF t] split: sum.splits)
  from m vs' have "printable (own_property kvs ''file_name'')"
    "printable (own_property kvs ''score'')"
    "printable (js_or (field_of ?details ''pass_fail_status'') (JStr ''N/A''))"
    using quote_field_needs_printable by (auto split: sum.splits)
  moreover note competencyScores_needs_printable [OF t cs] citedEvidence_needs_joinable [OF t ce]
  ultimately show ?thesis
    by (simp add: exportable_def field_of_def)
qed

lemma exportable_iff_exported:
  "exportable (JObj kvs) = (\<exists>row. csv_row (JObj kvs) = Inr row)"
  using exported_is_exportable exportable_row by blast

section \<open>The definitions at work\<close>

lemma truthy_examples:
  "\<not> truthy (js_integer 0)" "truthy (js_integer 7)" "truthy (JNum ''0.5'')" "\<not> truthy (JStr [])"
  "truthy (JStr ''0'')" "truthy (JObj [])" "truthy (JArr [])"
  by code_simp+

lemma to_string_examples:
  "to_string (js_integer (- 5)) = Inr ''-5''"
  "to_string (js_integer 9007199254740992) = Inr ''9007199254740992''"
  "to_string (JArr [js_integer 1, JNull, JArr [JStr ''a'', JBool True], JUndefined, JObj []])
     = Inr ''1,,a,true,,[object Object]''"
  "to_string (JArr [JStr ''a'', JObj [(''toString'', JNull)]])
     = Inl (TypeError ''Cannot convert object to primitive value'')"
  "to_string (JObj [(''valueOf'', js_integer 1)]) = Inr ''[object Object]''"
  by code_simp+

lemma is_array_index_examples:
  "is_array_index ''0''" "is_array_index ''10''" "is_array_index ''4294967294''"
  "\<not> is_array_index ''4294967295''" "\<not> is_array_index ''01''" "\<not> is_array_index []"
  "\<not> is_array_index ''-1''" "\<not> is_array_index ''1.5''"
  by code_simp+

lemma Object_entries_examples:
  "Object_entries (JStr ''ab'') = Inr [(''0'', JStr ''a''), (''1'', JStr ''b'')]"
  "Object_entries (JArr [JNull, JStr ''x'']) = Inr [(''0'', JNull), (''1'', JStr ''x'')]"
  "Object_entries (js_integer 5) = Inr []"
  "Object_entries (JObj [(''b'', JNull), (''1'', JNull), (''a'', JNull), (''0'', JNull)])
     = Inr [(''0'', JNull), (''1'', JNull), (''b'', JNull), (''a'', JNull)]"
  by code_simp+

lemma JSON_stringify_examples:
  \<open>JSON_stringify (JObj [(''b'', js_integer 1), (''2'', JArr [JNull, JStr ''x'', JUndefined]),
                         (''u'', JUndefined), (''1'', JBool False)])
     = Some ''{"1":false,"2":[null,"x",null],"b":1}''\<close>
  "JSON_stringify (JStr [CHR 0x0A, CHR 0x01, CHR 0x7F])
     = Some ([dq, bslash, CHR ''n'', bslash] @ ''u0001'' @ [CHR 0x7F, dq])"
  "JSON_stringify (JStr [bslash, dq]) = Some [dq, bslash, bslash, bslash, dq, dq]"
  "JSON_stringify JUndefined = None"
  by code_simp+

lemma export_examples:
  "csv_row gail = Inl (TypeError ''Cannot convert object to primitive value'')"
  "csv_row JNull
     = Inl (TypeError (''Cannot read properties of null (reading '' @ [sq] @ ''evaluation_details''
                        @ [sq] @ '')''))"
  "\<not> exportable gail" "\<not> exportable erin" "exportable henry"
  by code_simp+

lemma thrown_examples:
  "getp JUndefined ''score''
     = Inl (TypeError (''Cannot read properties of undefined (reading '' @ [sq] @ ''score'' @ [sq] @ '')''))"
  "call_join JUndefined ''; ''
     = Inl (TypeError (''Cannot read properties of undefined (reading '' @ [sq] @ ''join'' @ [sq] @ '')''))"
  "call_join JNull ''; ''
     = Inl (TypeError (''Cannot read properties of null (reading '' @ [sq] @ ''join'' @ [sq] @ '')''))"
  "call_join (JObj [(''join'', JStr ''x'')]) ''; ''
     = Inl (TypeError ''details.cited_evidence.join is not a function'')"
  "call_join (JArr [JStr ''a'', JNull, js_integer 2]) ''; '' = Inr ''a; ; 2''"
  "Object_entries JNull = Inl (TypeError ''Cannot convert undefined or null to object'')"
  "Object_entries JUndefined = Inl (TypeError ''Cannot convert undefined or null to object'')"
  "message (TypeError ''a'') = ''a''" "message (SyntaxError ''b'') = ''b''" "message (Error ''c'') = ''c''"
  by code_simp+

lemma JSON_parse_string_examples:
  "JSON_parse_string ([dq] @ ''a'' @ [bslash] @ ''/b'' @ [bslash] @ ''u0041'' @ [bslash] @ ''u00e9'' @ [dq])
     = Some (''a/bA'' @ [CHR 0xE9])"
  "JSON_parse_string ([dq] @ ''a'' @ [dq] @ ''b'' @ [dq]) = None"
  "JSON_parse_string ''abc'' = None"
  by code_simp+

lemma read_record_examples:
  \<open>read_record ''"a","b ""c"", d",""'' = Some [''a'', ''b "c", d'', '''']\<close>
  \<open>read_record ''"a",b'' = None\<close>
  \<open>read_record ''"a'' = None\<close>
  \<open>csv_read_field ''"a""b"'' = Some ''a"b''\<close>
  \<open>csv_read_field ''ab'' = None\<close>
  by code_simp+

lemma ResultsTable_examples:
  "ResultsTable [] = NoDataMessage"
  \<open>ResultsTable [bob] =
     ResultsView (Inr \<lparr>filename = ''candidate_evaluation_results.csv'',
                       mime_type = ''text/csv;charset=utf-8;'',
                       content = ''"File Name","Score","Pass/Fail","Justification","Cited Evidence","Competency Scores"\<newline>"bob.pdf","40","N/A","""""","""""",""""""''\<rparr>)\<close>
  by code_simp+

lemma BASE_URL_values:
  "BASE_URL True = ''/''" "BASE_URL False = ''http://localhost:8000''"
  by (simp_all add: BASE_URL_def)

lemma api_success:
  assumes "request_of base operation = Inr req" and "fetch req = Inr response" and "ok response"
  shows "call base fetch operation = json response"
proof (cases operation)
  case GetRoles
  with assms show ?thesis by (auto simp: getRoles_def)
next
  case (CreateRole role_title role_description oldRubric)
  with assms show ?thesis by (auto simp: createRole_def split: sum.splits)
next
  case (GetRoleDetails roleId)
  with assms show ?thesis by (auto simp: getRoleDetails_def)
next
  case (GetRoleResults roleId)
  with assms show ?thesis by (auto simp: getRoleResults_def)
next
  case (UploadResume roleId resume)
  with assms show ?thesis by (auto simp: uploadResume_def)
qed

lemma api_rejected:
  assumes "request_of base operation = Inr req" and "fetch req = Inl e"
  shows "call base fetch operation = Inl e"
proof (cases operation)
  case GetRoles
  with assms show ?thesis by (auto simp: getRoles_def)
next
  case (CreateRole role_title role_description oldRubric)
  with assms show ?thesis by (auto simp: createRole_def split: sum.splits)
next
  case (GetRoleDetails roleId)
  with assms show ?thesis by (auto simp: getRoleDetails_def)
next
  case (GetRoleResults roleId)
  with assms show ?thesis by (auto simp: getRoleResults_def)
next
  case (UploadResume roleId resume)
  with assms show ?thesis by (auto simp: uploadResume_def)
qed

lemma api_unsendable:
  "request_of base operation = Inl e \<Longrightarrow> call base fetch operation = Inl e"
  by (cases operation) (auto simp: createRole_def split: sum.splits)

lemma successful_submit:
  assumes "createRole base fetch (title st) (description st) (JStr oldRubricTemplate) = Inr role"
  shows "handleSubmit base fetch st =
           st\<lparr>loading := False, error := None,
              alerts := alerts st @ [''Role created and rubric generated successfully!''],
              location := ''/''\<rparr>"
  using assms by (simp add: handleSubmit_def submit_settle_def submit_start_def)

lemma oldRubricTemplate_sent:
  "createRole base echo role_title role_description (JStr oldRubricTemplate) =
     Inr (JObj [(''url'', JStr (base @ ''/api/roles'')),
                (''method'', JStr ''POST''),
                (''form'',
                 JObj [(''title'', JStr role_title), (''description'', JStr role_description),
                       (''old_rubric'', JStr oldRubricTemplate)])])"
  by (simp add: createRole_def createRole_formData_def echo_def oldRubricTemplate_def)

lemma length_oldRubricTemplate: "length oldRubricTemplate = 4163"
  by (simp add: oldRubricTemplate_def)

section \<open>The exported text of the example\<close>

text \<open>
  Claim C1, as the code has it. For the Result of the specification's example the export is
  the header row, a line break, and the row
  \<^verbatim>\<open>"alice.pdf","82","Pass","""Strong, clear communicator""","""5 yrs mgmt""","""Leadership: 4"""\<close>:
  the last three values go through \<^verbatim>\<open>JSON.stringify\<close> before they are quoted as fields,
  so each carries the double quotes of a JSON string literal, doubled by the field quoting.
\<close>

theorem alice_export:
  \<open>csvContent [alice] =
     Inr ''"File Name","Score","Pass/Fail","Justification","Cited Evidence","Competency Scores"\<newline>"alice.pdf","82","Pass","""Strong, clear communicator""","""5 yrs mgmt""","""Leadership: 4"""''\<close>
  by code_simp

text \<open>The row that claim C1 states is not the row the code produces.\<close>

theorem alice_row_counterexample:
  \<open>csv_row alice \<noteq>
     Inr ''"alice.pdf","82","Pass","Strong, clear communicator","5 yrs mgmt","Leadership: 4"''\<close>
  by code_simp

section \<open>Reading the justification back\<close>

text \<open>
  Claim C2, as the code has it. For every Result whose justification is a text \<open>j\<close> (with or
  without double quotes, commas or line breaks) and whose row is exported, reading the
  exported justification field back (surrounding double quotes unwrapped, doubled double
  quotes collapsed) yields the JSON string literal of \<open>j\<close>, that is
  \<^verbatim>\<open>JSON.stringify(j)\<close>: \<open>j\<close> between double quotes, with its double quotes, backslashes
  and control characters escaped. Decoding that literal as JSON yields \<open>j\<close> exactly.
\<close>

theorem justification_read_back:
  assumes "getp result ''evaluation_details'' = Inr details" and "truthy details"
    and "getp details ''justification'' = Inr (JStr j)"
    and "row_fields result = Inr fs"
  shows "read_field_back 3 result = Inr (Some (QuoteJSONString j))
         \<and> JSON_parse_string (QuoteJSONString j) = Some j"
proof -
  from row_values_details [OF assms(1,2,4)] assms(3)
  obtain file_name score status ce cs where
    vs: "row_values result =
           Inr [file_name, score, status, stringified (js_or (JStr j) (JStr [])),
                stringified (JStr ce), stringified (JStr cs)]"
    by auto
  have "js_or (JStr j) (JStr []) = JStr j"
    by (simp add: js_or_def)
  then have "read_field_back 3 result = Inr (Some (QuoteJSONString j))"
    by (intro read_field_back_nth [OF vs assms(4)]) (simp_all add: stringified_JStr)
  then show ?thesis
    by (simp add: JSON_parse_quote)
qed

text \<open>The theorem at the Result \<open>carol\<close>, whose justification has a comma and double quotes.\<close>

theorem justification_read_back_witness:
  \<open>read_field_back 3 carol
       = Inr (Some (''"Led 5 people, shipped '' @ [bslash] @ ''"Atlas'' @ [bslash] @ ''""''))
   \<and> JSON_parse_string (''"Led 5 people, shipped '' @ [bslash] @ ''"Atlas'' @ [bslash] @ ''""'')
       = Some ''Led 5 people, shipped "Atlas"''\<close>
proof -
  let ?details = \<open>JObj [(''pass_fail_status'', JStr ''Pass''),
                  (''justification'', JStr ''Led 5 people, shipped "Atlas"''),
                  (''cited_evidence'', JArr [JStr ''led team'', JStr ''shipped Atlas'']),
                  (''competency_scores'',
                   JObj [(''Leadership'', js_integer 3), (''Delivery'', js_integer 4)])]\<close>
  have 1: "getp carol ''evaluation_details'' = Inr ?details"
    by (simp add: carol_def own_property_def)
  have 2: "truthy ?details"
    by simp
  have 3: \<open>getp ?details ''justification'' = Inr (JStr ''Led 5 people, shipped "Atlas"'')\<close>
    by (simp add: own_property_def)
  have 4: \<open>row_fields carol =
      Inr [''"carol.pdf"'', ''"77"'', ''"Pass"'',
           ''"""Led 5 people, shipped '' @ [bslash] @ ''""Atlas'' @ [bslash] @ ''"""""''
           , ''"""led team; shipped Atlas"""'', ''"""Leadership: 3; Delivery: 4"""'']\<close>
    by code_simp
  have 5: \<open>QuoteJSONString ''Led 5 people, shipped "Atlas"''
      = ''"Led 5 people, shipped '' @ [bslash] @ ''"Atlas'' @ [bslash] @ ''""''\<close>
    by code_simp
  from justification_read_back [OF 1 2 3 4] show ?thesis
    by (simp only: 5)
qed

text \<open>Read back as claim C2 says, the field of \<open>carol\<close> is not her justification.\<close>

theorem justification_counterexample:
  \<open>read_field_back 3 carol \<noteq> Inr (Some ''Led 5 people, shipped "Atlas"'')\<close>
  by code_simp

section \<open>A Result without evaluation details\<close>

text \<open>
  Claim C3, as the code has it. For every Result object with no \<^verbatim>\<open>evaluation_details\<close>
  whose file name and score convert to strings (every JSON value does, a number with a
  fraction too, except an object with an own property \<^verbatim>\<open>toString\<close> and an array that holds
  one) the serialization does not throw; the first two fields are the quoted texts of the
  file name and the score; the Pass/Fail field is \<^verbatim>\<open>"N/A"\<close>, read back as \<^verbatim>\<open>N/A\<close>; the
  Justification, Cited Evidence and Competency Scores fields are each \<^verbatim>\<open>""""""\<close>, read back
  as the two characters \<^verbatim>\<open>""\<close>, the JSON string literal of the empty text.
\<close>

theorem no_details_row:
  assumes "map_of kvs ''evaluation_details'' = None"
    and "to_string (own_property kvs ''file_name'') = Inr file_name"
    and "to_string (own_property kvs ''score'') = Inr score"
  shows \<open>row_fields (JObj kvs) =
           Inr [quote_text file_name, quote_text score, ''"N/A"'', ''""""""'', ''""""""'', ''""""""'']
         \<and> read_field_back 2 (JObj kvs) = Inr (Some ''N/A'')
         \<and> read_field_back 3 (JObj kvs) = Inr (Some ''""'')
         \<and> read_field_back 4 (JObj kvs) = Inr (Some ''""'')
         \<and> read_field_back 5 (JObj kvs) = Inr (Some ''""'')\<close>
proof -
  note vs = no_details_values [OF assms(1)]
  have fs: "row_fields (JObj kvs) =
           Inr [quote_text file_name, quote_text score, ''\"N/A\"'', ''\"\"\"\"\"\"'',
                ''\"\"\"\"\"\"'', ''\"\"\"\"\"\"'']"
    by (simp add: row_fields_def vs quote_field_def assms(2,3) quote_text_def replace_quotes_def
        dq_def)
  have "read_field_back 2 (JObj kvs) = Inr (Some ''N/A'')"
    by (rule read_field_back_nth [OF vs fs]) simp_all
  moreover have "read_field_back 3 (JObj kvs) = Inr (Some ''\"\"'')"
    by (rule read_field_back_nth [OF vs fs]) (simp_all add: dq_def)
  moreover have "read_field_back 4 (JObj kvs) = Inr (Some ''\"\"'')"
    by (rule read_field_back_nth [OF vs fs]) (simp_all add: dq_def)
  moreover have "read_field_back 5 (JObj kvs) = Inr (Some ''\"\"'')"
    by (rule read_field_back_nth [OF vs fs]) (simp_all add: dq_def)
  ultimately show ?thesis using fs by simp
qed

text \<open>
  The theorem at the Results \<open>bob\<close> and \<open>ivy\<close>, which have a file name and a score only;
  the score of \<open>ivy\<close> has a fraction.
\<close>

theorem no_details_row_witness:
  \<open>row_fields bob = Inr [''"bob.pdf"'', ''"40"'', ''"N/A"'', ''""""""'', ''""""""'', ''""""""'']
   \<and> read_field_back 2 bob = Inr (Some ''N/A'')
   \<and> read_field_back 3 bob = Inr (Some ''""'')
   \<and> read_field_back 4 bob = Inr (Some ''""'')
   \<and> read_field_back 5 bob = Inr (Some ''""'')
   \<and> row_fields ivy = Inr [''"ivy.pdf"'', ''"82.5"'', ''"N/A"'', ''""""""'', ''""""""'', ''""""""'']\<close>
proof -
  let ?kvs = "[(''file_name'', JStr ''bob.pdf''), (''score'', js_integer 40)]"
  have 1: "map_of ?kvs ''evaluation_details'' = None"
    by simp
  have 2: "to_string (own_property ?kvs ''file_name'') = Inr ''bob.pdf''"
    by (simp add: own_property_def)
  have 3: "to_string (own_property ?kvs ''score'') = Inr ''40''"
    by code_simp
  have 4: \<open>quote_text ''bob.pdf'' = ''"bob.pdf"''\<close> \<open>quote_text ''40'' = ''"40"''\<close>
    by code_simp+
  let ?ivy = "[(''file_name'', JStr ''ivy.pdf''), (''score'', JNum ''82.5'')]"
  have 5: "map_of ?ivy ''evaluation_details'' = None"
    by simp
  have 6: "to_string (own_property ?ivy ''file_name'') = Inr ''ivy.pdf''"
    by (simp add: own_property_def)
  have 7: "to_string (own_property ?ivy ''score'') = Inr ''82.5''"
    by (simp add: own_property_def)
  have 8: \<open>quote_text ''ivy.pdf'' = ''"ivy.pdf"''\<close> \<open>quote_text ''82.5'' = ''"82.5"''\<close>
    by code_simp+
  from no_details_row [OF 1 2 3] no_details_row [OF 5 6 7] show ?thesis
    by (simp only: 4 8 bob_def [symmetric] ivy_def [symmetric])
qed

text \<open>The last three fields of \<open>bob\<close> do not read back as the empty text.\<close>

theorem no_details_counterexample:
  \<open>read_field_back 3 bob \<noteq> Inr (Some [])
   \<and> read_field_back 4 bob \<noteq> Inr (Some [])
   \<and> read_field_back 5 bob \<noteq> Inr (Some [])\<close>
  by code_simp

section \<open>The order of the competency scores\<close>

text \<open>
  Claim C4, as the code has it. For every Result with a \<^verbatim>\<open>competency_scores\<close> object whose
  row is exported, the Competency Scores field reads back as the JSON string literal of the
  pairs \<^verbatim>\<open>name: value\<close> (\<open>pair_text\<close>) joined by \<^verbatim>\<open>; \<close>, in the order of \<^verbatim>\<open>Object.entries\<close>:
  the keys that are array indices first, in ascending numeric order, then the other keys in
  insertion order. When no key is an array index this is the insertion order.
\<close>

theorem competency_field:
  assumes "getp result ''evaluation_details'' = Inr details" and "truthy details"
    and "getp details ''competency_scores'' = Inr (JObj scores)"
    and "row_fields result = Inr fs"
  shows "(\<exists>pairs. map_throwing pair_text (own_entries scores) = Inr pairs
            \<and> read_field_back 5 result = Inr (Some (QuoteJSONString (js_join ''; '' pairs))))
         \<and> (list_all (\<lambda>kv. \<not> is_array_index (fst kv)) scores \<longrightarrow> own_entries scores = scores)"
proof -
  from row_values_details [OF assms(1,2,4)]
  obtain file_name score status j ce cs where
    vs: "row_values result =
           Inr [file_name, score, status, stringified (js_or j (JStr [])), stringified (JStr ce),
                stringified (JStr cs)]"
    and cs: "competencyScores details = Inr cs"
    by auto
  from competencyScores_object [OF assms(3) cs] obtain pairs where
    pairs: "map_throwing pair_text (own_entries scores) = Inr pairs" "cs = js_join ''; '' pairs"
    by blast
  have "read_field_back 5 result = Inr (Some (QuoteJSONString (js_join ''; '' pairs)))"
    by (rule read_field_back_nth [OF vs assms(4)]) (simp_all add: stringified_JStr pairs(2))
  with pairs(1) show ?thesis
    by (auto simp: own_entries_no_index)
qed

text \<open>
  The theorem at \<open>dana\<close>, whose scores were inserted as \<^verbatim>\<open>Teamwork\<close>, \<^verbatim>\<open>10\<close>, \<^verbatim>\<open>2\<close>, and at
  \<open>carol\<close>, none of whose keys is an array index.
\<close>

theorem competency_field_witness:
  \<open>read_field_back 5 dana = Inr (Some ''"2: 5; 10: 4; Teamwork: 3"'')
   \<and> read_field_back 5 carol = Inr (Some ''"Leadership: 3; Delivery: 4"'')
   \<and> own_entries [(''Leadership'', js_integer 3), (''Delivery'', js_integer 4)]
       = [(''Leadership'', js_integer 3), (''Delivery'', js_integer 4)]\<close>
proof -
  let ?scores = "[(''Teamwork'', js_integer 3), (''10'', js_integer 4), (''2'', js_integer 5)]"
  let ?details = "JObj [(''pass_fail_status'', JStr ''Fail''),
                  (''justification'', JStr ''Too junior''),
                  (''cited_evidence'', JArr []),
                  (''competency_scores'', JObj ?scores)]"
  have d1: "getp dana ''evaluation_details'' = Inr ?details"
    by (simp add: dana_def own_property_def)
  have d2: "truthy ?details"
    by simp
  have d3: "getp ?details ''competency_scores'' = Inr (JObj ?scores)"
    by (simp add: own_property_def)
  have d4: \<open>row_fields dana =
      Inr [''"dana.pdf"'', ''"65"'', ''"Fail"'', ''"""Too junior"""'', ''""""""'',
           ''"""2: 5; 10: 4; Teamwork: 3"""'']\<close>
    by code_simp
  have d5: "map_throwing pair_text (own_entries ?scores) = Inr [''2: 5'', ''10: 4'', ''Teamwork: 3'']"
    by code_simp
  have d6: \<open>QuoteJSONString (js_join ''; '' [''2: 5'', ''10: 4'', ''Teamwork: 3''])
      = ''"2: 5; 10: 4; Teamwork: 3"''\<close>
    by code_simp
  let ?cscores = "[(''Leadership'', js_integer 3), (''Delivery'', js_integer 4)]"
  let ?cdetails = \<open>JObj [(''pass_fail_status'', JStr ''Pass''),
                  (''justification'', JStr ''Led 5 people, shipped "Atlas"''),
                  (''cited_evidence'', JArr [JStr ''led team'', JStr ''shipped Atlas'']),
                  (''competency_scores'', JObj ?cscores)]\<close>
  have c1: "getp carol ''evaluation_details'' = Inr ?cdetails"
    by (simp add: carol_def own_property_def)
  have c2: "truthy ?cdetails"
    by simp
  have c3: "getp ?cdetails ''competency_scores'' = Inr (JObj ?cscores)"
    by (simp add: own_property_def)
  have c4: \<open>row_fields carol =
      Inr [''"carol.pdf"'', ''"77"'', ''"Pass"'',
           ''"""Led 5 people, shipped '' @ [bslash] @ ''""Atlas'' @ [bslash] @ ''"""""'',
           ''"""led team; shipped Atlas"""'', ''"""Leadership: 3; Delivery: 4"""'']\<close>
    by code_simp
  have c5: "list_all (\<lambda>kv. \<not> is_array_index (fst kv)) ?cscores"
    by code_simp
  have c6: "map_throwing pair_text ?cscores = Inr [''Leadership: 3'', ''Delivery: 4'']"
    by code_simp
  have c7: \<open>QuoteJSONString (js_join ''; '' [''Leadership: 3'', ''Delivery: 4''])
      = ''"Leadership: 3; Delivery: 4"''\<close>
    by code_simp
  from competency_field [OF d1 d2 d3 d4]
  have "read_field_back 5 dana = Inr (Some ''\"2: 5; 10: 4; Teamwork: 3\"'')"
    by (auto simp only: d5 d6 sum.inject)
  moreover from competency_field [OF c1 c2 c3 c4] c5
  have e: "own_entries ?cscores = ?cscores"
    by blast
  moreover from competency_field [OF c1 c2 c3 c4]
  have "read_field_back 5 carol = Inr (Some ''\"Leadership: 3; Delivery: 4\"'')"
    by (auto simp only: e c6 c7 sum.inject)
  ultimately show ?thesis
    by simp
qed

text \<open>
  The field of \<open>dana\<close> is neither her scores in insertion order nor the JSON string
  literal of that text.
\<close>

theorem competency_order_counterexample:
  \<open>read_field_back 5 dana = Inr (Some ''"2: 5; 10: 4; Teamwork: 3"'')
   \<and> read_field_back 5 dana \<noteq> Inr (Some ''Teamwork: 3; 10: 4; 2: 5'')
   \<and> read_field_back 5 dana \<noteq> Inr (Some ''"Teamwork: 3; 10: 4; 2: 5"'')\<close>
  by code_simp

section \<open>No results\<close>

text \<open>
  Claim C5. On the empty sequence of Results the serialization does not throw and yields the
  quoted header row and nothing else: no line break after it, no further row. (The component
  itself renders only a message for an empty sequence and offers no export then:
  \<open>ResultsTable [] = NoDataMessage\<close>.)
\<close>

theorem csvContent_empty:
  \<open>csvContent [] =
     Inr ''"File Name","Score","Pass/Fail","Justification","Cited Evidence","Competency Scores"''\<close>
  by code_simp

section \<open>Errors of the API client\<close>

text \<open>
  Claim C6, as the code has it. For each of the five operations, whenever its request is
  answered by a response whose status is not 2xx: when the body is not JSON the operation
  throws the error of \<^verbatim>\<open>response.json()\<close> itself, not its default message; when the body is
  \<^verbatim>\<open>null\<close> it throws the \<^verbatim>\<open>TypeError\<close> of reading \<^verbatim>\<open>detail\<close>; when \<^verbatim>\<open>detail\<close> is a non-empty
  string it throws an \<^verbatim>\<open>Error\<close> with that string as its message; when \<^verbatim>\<open>detail\<close> is any other
  truthy value it throws an \<^verbatim>\<open>Error\<close> whose message is \<^verbatim>\<open>String(detail)\<close>, or the
  \<^verbatim>\<open>TypeError\<close> of that conversion when \<^verbatim>\<open>detail\<close> does not convert; when \<^verbatim>\<open>detail\<close> is
  absent or falsy it throws an \<^verbatim>\<open>Error\<close> with the operation's default message.
\<close>

theorem api_error_message:
  assumes "request_of base operation = Inr req" and "fetch req = Inr response"
    and "\<not> ok response"
  shows "(json response = Inl e \<longrightarrow> call base fetch operation = Inl e)
       \<and> (json response = Inr errorData \<and> getp errorData ''detail'' = Inl e
            \<longrightarrow> call base fetch operation = Inl e)
       \<and> (json response = Inr errorData \<and> getp errorData ''detail'' = Inr (JStr s) \<and> s \<noteq> []
            \<longrightarrow> call base fetch operation = Inl (Error s))
       \<and> (json response = Inr errorData \<and> getp errorData ''detail'' = Inr detail \<and> truthy detail
            \<and> to_string detail = Inr s
            \<longrightarrow> call base fetch operation = Inl (Error s))
       \<and> (json response = Inr errorData \<and> getp errorData ''detail'' = Inr detail \<and> truthy detail
            \<and> to_string detail = Inl e
            \<longrightarrow> call base fetch operation = Inl e)
       \<and> (json response = Inr errorData \<and> getp errorData ''detail'' = Inr detail \<and> \<not> truthy detail
            \<longrightarrow> call base fetch operation = Inl (Error (default_message operation)))"
proof (cases operation)
  case GetRoles
  with assms show ?thesis
    by (auto simp: getRoles_def js_or_def)
next
  case (CreateRole role_title role_description oldRubric)
  with assms show ?thesis
    by (auto simp: createRole_def js_or_def split: sum.splits)
next
  case (GetRoleDetails roleId)
  with assms show ?thesis
    by (auto simp: getRoleDetails_def js_or_def)
next
  case (GetRoleResults roleId)
  with assms show ?thesis
    by (auto simp: getRoleResults_def js_or_def)
next
  case (UploadResume roleId resume)
  with assms show ?thesis
    by (auto simp: uploadResume_def js_or_def)
qed

text \<open>
  The theorem at six responses: a \<^verbatim>\<open>detail\<close> string, an empty object, an HTML page,
  \<^verbatim>\<open>null\<close>, a \<^verbatim>\<open>detail\<close> that is a list of two objects, and a \<^verbatim>\<open>detail\<close> that does not convert.
\<close>

theorem api_error_message_witness:
  "createRole ''http://localhost:8000'' (\<lambda>req. Inr title_required) '' '' ''Own the test strategy''
       JUndefined = Inl (Error ''title required'')
   \<and> uploadResume ''http://localhost:8000'' (\<lambda>req. Inr not_found) ''7''
       \<lparr>name = ''cv.pdf'', data = ''%PDF''\<rparr> = Inl (Error ''Failed to upload resume'')
   \<and> getRoles ''http://localhost:8000'' (\<lambda>req. Inr bad_gateway)
       = Inl (SyntaxError ''Unexpected token < in JSON at position 0'')
   \<and> getRoleDetails ''http://localhost:8000'' (\<lambda>req. Inr null_body) ''7''
       = Inl (TypeError (''Cannot read properties of null (reading '' @ [sq] @ ''detail'' @ [sq] @ '')''))
   \<and> getRoleResults ''http://localhost:8000'' (\<lambda>req. Inr validation_errors) ''7''
       = Inl (Error ''[object Object],[object Object]'')
   \<and> getRoleResults ''http://localhost:8000'' (\<lambda>req. Inr odd_detail) ''7''
       = Inl (TypeError ''Cannot convert object to primitive value'')"
proof -
  let ?base = "''http://localhost:8000''"
  have "call ?base (\<lambda>req. Inr title_required)
          (CreateRole '' '' ''Own the test strategy'' JUndefined) = Inl (Error ''title required'')"
    using api_error_message [where fetch = "\<lambda>req. Inr title_required"
        and response = title_required and base = ?base
        and operation = "CreateRole '' '' ''Own the test strategy'' JUndefined"
        and errorData = "JObj [(''detail'', JStr ''title required'')]"
        and s = "''title required''"]
    by (simp add: title_required_def own_property_def createRole_formData_def)
  moreover have "call ?base (\<lambda>req. Inr not_found)
          (UploadResume ''7'' \<lparr>name = ''cv.pdf'', data = ''%PDF''\<rparr>)
          = Inl (Error ''Failed to upload resume'')"
    using api_error_message [where fetch = "\<lambda>req. Inr not_found" and response = not_found
        and base = ?base
        and operation = "UploadResume ''7'' \<lparr>name = ''cv.pdf'', data = ''%PDF''\<rparr>"
        and errorData = "JObj []" and detail = JUndefined]
    by (simp add: not_found_def own_property_def)
  moreover have "call ?base (\<lambda>req. Inr bad_gateway) GetRoles
          = Inl (SyntaxError ''Unexpected token < in JSON at position 0'')"
    using api_error_message [where fetch = "\<lambda>req. Inr bad_gateway" and response = bad_gateway
        and base = ?base and operation = GetRoles
        and e = "SyntaxError ''Unexpected token < in JSON at position 0''"]
    by (simp add: bad_gateway_def)
  moreover have "call ?base (\<lambda>req. Inr null_body) (GetRoleDetails ''7'')
          = Inl (TypeError (''Cannot read properties of null (reading '' @ [sq] @ ''detail'' @ [sq] @ '')''))"
    using api_error_message [where fetch = "\<lambda>req. Inr null_body" and response = null_body
        and base = ?base and operation = "GetRoleDetails ''7''"
        and e = "TypeError (''Cannot read properties of null (reading '' @ [sq] @ ''detail'' @ [sq] @ '')'')"
        and errorData = JNull]
    by (simp add: null_body_def)
  moreover have "call ?base (\<lambda>req. Inr validation_errors) (GetRoleResults ''7'')
          = Inl (Error ''[object Object],[object Object]'')"
    using api_error_message [where fetch = "\<lambda>req. Inr validation_errors"
        and response = validation_errors
        and base = ?base and operation = "GetRoleResults ''7''"
        and errorData = "JObj [(''detail'', JArr [JObj [(''msg'', JStr ''field required'')],
                                                  JObj [(''msg'', JStr ''field required'')]])]"
        and detail = "JArr [JObj [(''msg'', JStr ''field required'')],
                            JObj [(''msg'', JStr ''field required'')]]"
        and s = "''[object Object],[object Object]''"]
    by (simp add: validation_errors_def own_property_def)
  moreover have "call ?base (\<lambda>req. Inr odd_detail) (GetRoleResults ''7'')
          = Inl (TypeError ''Cannot convert object to primitive value'')"
    using api_error_message [where fetch = "\<lambda>req. Inr odd_detail" and response = odd_detail
        and base = ?base and operation = "GetRoleResults ''7''"
        and errorData = "JObj [(''detail'', JObj [(''toString'', js_integer 1)])]"
        and detail = "JObj [(''toString'', js_integer 1)]"
        and e = "TypeError ''Cannot convert object to primitive value''"]
    by (simp add: odd_detail_def own_property_def)
  ultimately show ?thesis
    by simp
qed

text \<open>On a body that is not JSON, \<^verbatim>\<open>getRoles\<close> does not throw its default message.\<close>

theorem unparsable_body_counterexample:
  "getRoles ''http://localhost:8000'' (\<lambda>req. Inr bad_gateway)
     = Inl (SyntaxError ''Unexpected token < in JSON at position 0'')
   \<and> getRoles ''http://localhost:8000'' (\<lambda>req. Inr bad_gateway)
     \<noteq> Inl (Error ''Failed to fetch roles'')"
  by (simp add: getRoles_def bad_gateway_def)

section \<open>A failed submission of the creation form\<close>

text \<open>
  Claim C7. When \<^verbatim>\<open>createRole\<close> throws, \<^verbatim>\<open>handleSubmit\<close> sets the form's error to the
  message of the thrown error, does not navigate and shows no alert, leaves the title and
  the description as they were, and resets the loading flag.
\<close>

theorem failed_submit:
  assumes "createRole base fetch (title st) (description st) (JStr oldRubricTemplate) = Inl err"
  shows "error (handleSubmit base fetch st) = Some (message err)
       \<and> location (handleSubmit base fetch st) = location st
       \<and> alerts (handleSubmit base fetch st) = alerts st
       \<and> title (handleSubmit base fetch st) = title st
       \<and> description (handleSubmit base fetch st) = description st
       \<and> loading (handleSubmit base fetch st) = False"
  using assms by (simp add: handleSubmit_def submit_settle_def submit_start_def)

text \<open>
  The theorem at a form answered by a 400 response with the body
  \<^verbatim>\<open>{"detail":"title required"}\<close>.
\<close>

theorem failed_submit_witness:
  "error (handleSubmit ''http://localhost:8000'' (\<lambda>req. Inr title_required) blank_form)
     = Some ''title required''
   \<and> location (handleSubmit ''http://localhost:8000'' (\<lambda>req. Inr title_required) blank_form)
     = ''/create-role''
   \<and> alerts (handleSubmit ''http://localhost:8000'' (\<lambda>req. Inr title_required) blank_form) = []
   \<and> title (handleSubmit ''http://localhost:8000'' (\<lambda>req. Inr title_required) blank_form) = '' ''
   \<and> description (handleSubmit ''http://localhost:8000'' (\<lambda>req. Inr title_required) blank_form)
     = ''Own the test strategy''
   \<and> loading (handleSubmit ''http://localhost:8000'' (\<lambda>req. Inr title_required) blank_form) = False"
proof -
  have "createRole ''http://localhost:8000'' (\<lambda>req. Inr title_required) (title blank_form)
          (description blank_form) (JStr oldRubricTemplate) = Inl (Error ''title required'')"
    by (simp add: createRole_def createRole_formData_def title_required_def own_property_def
        js_or_def)
  from failed_submit [OF this] show ?thesis
    by (simp add: blank_form_def)
qed

section \<open>The form data of \<^verbatim>\<open>createRole\<close>\<close>


section \<open>When the export cannot throw\<close>




end
